theory Spec2Isabelle
  imports Complex_Main
begin

chapter \<open>Python-Mini-Projects: Calculator, CurrencyConverter, RPS\<close>

text \<open>
  The three programs are embedded function by function. Python values that the programs
  compute with (strings, unbounded integers, binary64 floats) are modelled first; each
  program follows, with the names of its source. Every \<^verbatim>\<open>raise\<close> of the source and
  of the built-ins it calls is a value of \<open>py_error\<close>; a function that changes state
  returns an \<open>outcome\<close>, which carries the state reached also when an exception leaves
  the function, since Python keeps the mutations made before the exception.
\<close>

section \<open>Python values\<close>

datatype py_error =
    AttributeError | ValueError | IndexError | ZeroDivisionError | KeyError
  | OverflowError | TypeError | EOFError
  | RuntimeError string | RequestException string

datatype ('a, 's) outcome = Returned 'a 's | Raised py_error 's

definition state_of :: "('a, 's) outcome \<Rightarrow> 's" where
  "state_of r = (case r of Returned v s \<Rightarrow> s | Raised err s \<Rightarrow> s)"

definition bind :: "('a, 's) outcome \<Rightarrow> ('a \<Rightarrow> 's \<Rightarrow> ('b, 's) outcome) \<Rightarrow> ('b, 's) outcome" where
  "bind r f = (case r of Returned v s \<Rightarrow> f v s | Raised err s \<Rightarrow> Raised err s)"

definition lift :: "'s \<Rightarrow> py_error + 'a \<Rightarrow> ('a, 's) outcome" where
  "lift s r = (case r of Inl err \<Rightarrow> Raised err s | Inr v \<Rightarrow> Returned v s)"

subsection \<open>Strings\<close>

text \<open>
  A \<^verbatim>\<open>str\<close> is a \<open>string\<close>; the characters are those of ASCII. \<open>py_isspace\<close> is
  \<^verbatim>\<open>str.isspace\<close> on them (tab, line feed, vertical tab, form feed, carriage return,
  the four separators 28 to 31, and the space), which is what \<^verbatim>\<open>split()\<close> and
  \<^verbatim>\<open>strip()\<close> remove.
\<close>

definition py_isspace :: "char \<Rightarrow> bool" where
  "py_isspace c = (of_char c \<in> {9, 10, 11, 12, 13, 28, 29, 30, 31, 32 :: nat})"

definition py_strip :: "string \<Rightarrow> string" where
  "py_strip s = rev (dropWhile py_isspace (rev (dropWhile py_isspace s)))"

fun split_ws :: "string \<Rightarrow> string \<Rightarrow> string list" where
  "split_ws w [] = (if w = [] then [] else [rev w])"
| "split_ws w (c # cs) =
     (if py_isspace c then (if w = [] then split_ws [] cs else rev w # split_ws [] cs)
      else split_ws (c # w) cs)"

text \<open>\<^verbatim>\<open>s.split()\<close>: the maximal runs of non-blank characters, in order.\<close>

definition py_split :: "string \<Rightarrow> string list" where
  "py_split s = split_ws [] s"

definition startswith :: "string \<Rightarrow> string \<Rightarrow> bool" where
  "startswith s p = (take (length p) s = p)"

definition endswith :: "string \<Rightarrow> string \<Rightarrow> bool" where
  "endswith s p = (length p \<le> length s \<and> drop (length s - length p) s = p)"

definition py_lower_char :: "char \<Rightarrow> char" where
  "py_lower_char c =
     (case map_of (zip ''ABCDEFGHIJKLMNOPQRSTUVWXYZ'' ''abcdefghijklmnopqrstuvwxyz'') c of
        Some d \<Rightarrow> d | None \<Rightarrow> c)"

definition py_upper_char :: "char \<Rightarrow> char" where
  "py_upper_char c =
     (case map_of (zip ''abcdefghijklmnopqrstuvwxyz'' ''ABCDEFGHIJKLMNOPQRSTUVWXYZ'') c of
        Some d \<Rightarrow> d | None \<Rightarrow> c)"

definition py_lower :: "string \<Rightarrow> string" where
  "py_lower s = map py_lower_char s"

definition py_upper :: "string \<Rightarrow> string" where
  "py_upper s = map py_upper_char s"

subsection \<open>Integers\<close>

definition is_digit :: "char \<Rightarrow> bool" where
  "is_digit c = (48 \<le> (of_char c :: nat) \<and> (of_char c :: nat) \<le> 57)"

definition digit_val :: "char \<Rightarrow> nat" where
  "digit_val c = of_char c - 48"

definition digit_char :: "nat \<Rightarrow> char" where
  "digit_char d = ''0123456789'' ! d"

fun str_nat :: "nat \<Rightarrow> string" where
  "str_nat n = (if n < 10 then [digit_char n] else str_nat (n div 10) @ [digit_char (n mod 10)])"

text \<open>\<^verbatim>\<open>str(i)\<close> of an \<^verbatim>\<open>int\<close>.\<close>

definition py_str_int :: "int \<Rightarrow> string" where
  "py_str_int i = (if i < 0 then CHR ''-'' # str_nat (nat (- i)) else str_nat (nat i))"

text \<open>
  Digits in which single underscores may stand between two digits, as \<^verbatim>\<open>int()\<close>
  accepts them; the flag says whether the previous character was a digit.
\<close>

fun digits_us :: "bool \<Rightarrow> string \<Rightarrow> nat \<Rightarrow> nat option" where
  "digits_us prev_digit [] acc = (if prev_digit then Some acc else None)"
| "digits_us prev_digit (c # cs) acc =
     (if is_digit c then digits_us True cs (10 * acc + digit_val c)
      else if c = CHR ''_'' \<and> prev_digit \<and> cs \<noteq> [] \<and> is_digit (hd cs)
      then digits_us False cs acc
      else None)"

definition split_sign :: "string \<Rightarrow> bool \<times> string" where
  "split_sign s = (case s of
       [] \<Rightarrow> (False, s)
     | c # cs \<Rightarrow>
         (if c = CHR ''-'' then (True, cs) else if c = CHR ''+'' then (False, cs)
          else (False, s)))"

text \<open>
  \<^verbatim>\<open>int(s)\<close> of a string: blanks around, an optional sign, decimal digits;
  \<^verbatim>\<open>ValueError\<close> on anything else. (The limit on the number of digits that
  CPython 3.11 added is not modelled.)
\<close>

definition py_int :: "string \<Rightarrow> py_error + int" where
  "py_int s = (case split_sign (py_strip s) of (neg, body) \<Rightarrow>
       (case digits_us False body 0 of
          None \<Rightarrow> Inl ValueError
        | Some n \<Rightarrow> Inr (if neg then - int n else int n)))"

subsection \<open>Floats\<close>

text \<open>
  A \<^verbatim>\<open>float\<close> is an IEEE 754 binary64 value: \<open>Finite s m e\<close> is the number
  \<open>m * 2 ^ e\<close>, negated when \<open>s\<close> holds, with \<open>m < 2 ^ 53\<close> and
  \<open>- 1074 \<le> e\<close> and \<open>e \<le> 971\<close>, where \<open>2 ^ 52 \<le> m\<close> unless \<open>e = - 1074\<close>
  (zero and the subnormal numbers), so that every value has one representation.
  \<open>fl_round p q\<close> rounds the fraction \<open>p / q\<close> to the nearest such value, ties to
  the even significand, and is \<open>None\<close> beyond the largest finite value.
\<close>

datatype pyfloat = Finite bool nat int | Infinity bool | NaN

fun bitlen_nat :: "nat \<Rightarrow> nat" where
  "bitlen_nat n = (if n = 0 then 0 else Suc (bitlen_nat (n div 2)))"

definition pow2 :: "int \<Rightarrow> nat" where
  "pow2 k = 2 ^ nat k"

definition fl_round :: "nat \<Rightarrow> nat \<Rightarrow> (nat \<times> int) option" where
  "fl_round p q =
     (if p = 0 then Some (0, - 1074)
      else
        let k = int (bitlen_nat p) - int (bitlen_nat q);
            l = (if (if 0 \<le> k then q * pow2 k \<le> p else q \<le> p * pow2 (- k)) then k else k - 1);
            e = max (l - 52) (- 1074);
            num = (if 0 \<le> e then p else p * pow2 (- e));
            den = (if 0 \<le> e then q * pow2 e else q);
            m = num div den;
            r = num mod den;
            m' = (if den < 2 * r \<or> (2 * r = den \<and> odd m) then m + 1 else m);
            me = (if m' = 2 ^ 53 then (2 ^ 52, e + 1) else (m', e))
        in if 971 < snd me then None else Some me)"

text \<open>Float arithmetic overflows to an infinity.\<close>

definition fl_make :: "bool \<Rightarrow> nat \<Rightarrow> nat \<Rightarrow> pyfloat" where
  "fl_make s p q = (case fl_round p q of None \<Rightarrow> Infinity s | Some (m, e) \<Rightarrow> Finite s m e)"

text \<open>A finite float as a whole multiple of \<open>2 ^ (- 1074)\<close>.\<close>

definition fl_units :: "bool \<Rightarrow> nat \<Rightarrow> int \<Rightarrow> int" where
  "fl_units s m e = (if s then - int (m * pow2 (e + 1074)) else int (m * pow2 (e + 1074)))"

definition fl_neg :: "pyfloat \<Rightarrow> pyfloat" where
  "fl_neg x = (case x of
       Finite s m e \<Rightarrow> Finite (\<not> s) m e | Infinity s \<Rightarrow> Infinity (\<not> s) | NaN \<Rightarrow> NaN)"

definition fl_is_zero :: "pyfloat \<Rightarrow> bool" where
  "fl_is_zero x = (case x of Finite s m e \<Rightarrow> m = 0 | _ \<Rightarrow> False)"

definition fl_add :: "pyfloat \<Rightarrow> pyfloat \<Rightarrow> pyfloat" where
  "fl_add x y = (case (x, y) of
       (NaN, _) \<Rightarrow> NaN
     | (_, NaN) \<Rightarrow> NaN
     | (Infinity s, Infinity t) \<Rightarrow> (if s = t then Infinity s else NaN)
     | (Infinity s, _) \<Rightarrow> Infinity s
     | (_, Infinity t) \<Rightarrow> Infinity t
     | (Finite s m e, Finite t n f) \<Rightarrow>
         (let u = fl_units s m e + fl_units t n f
          in if u = 0 then Finite (s \<and> t) 0 (- 1074)
             else fl_make (u < 0) (nat \<bar>u\<bar>) (pow2 1074)))"

definition fl_sub :: "pyfloat \<Rightarrow> pyfloat \<Rightarrow> pyfloat" where
  "fl_sub x y = fl_add x (fl_neg y)"

definition fl_mul :: "pyfloat \<Rightarrow> pyfloat \<Rightarrow> pyfloat" where
  "fl_mul x y = (case (x, y) of
       (NaN, _) \<Rightarrow> NaN
     | (_, NaN) \<Rightarrow> NaN
     | (Infinity s, Infinity t) \<Rightarrow> Infinity (s \<noteq> t)
     | (Infinity s, Finite t n f) \<Rightarrow> (if n = 0 then NaN else Infinity (s \<noteq> t))
     | (Finite s m e, Infinity t) \<Rightarrow> (if m = 0 then NaN else Infinity (s \<noteq> t))
     | (Finite s m e, Finite t n f) \<Rightarrow>
         fl_make (s \<noteq> t) (m * pow2 (e + 1074) * (n * pow2 (f + 1074))) (pow2 2148))"

text \<open>Python raises \<^verbatim>\<open>ZeroDivisionError\<close> for every float divided by a zero.\<close>

definition fl_div :: "pyfloat \<Rightarrow> pyfloat \<Rightarrow> py_error + pyfloat" where
  "fl_div x y =
     (if fl_is_zero y then Inl ZeroDivisionError
      else Inr (case (x, y) of
          (NaN, _) \<Rightarrow> NaN
        | (_, NaN) \<Rightarrow> NaN
        | (Infinity s, Infinity t) \<Rightarrow> NaN
        | (Infinity s, Finite t n f) \<Rightarrow> Infinity (s \<noteq> t)
        | (Finite s m e, Infinity t) \<Rightarrow> Finite (s \<noteq> t) 0 (- 1074)
        | (Finite s m e, Finite t n f) \<Rightarrow>
            fl_make (s \<noteq> t) (m * pow2 (e + 1074)) (n * pow2 (f + 1074))))"

text \<open>\<^verbatim>\<open>float(i)\<close> of an \<^verbatim>\<open>int\<close>, also where arithmetic mixes the two types.\<close>

definition fl_of_int :: "int \<Rightarrow> py_error + pyfloat" where
  "fl_of_int i = (case fl_round (nat \<bar>i\<bar>) 1 of
        None \<Rightarrow> Inl OverflowError
      | Some (m, e) \<Rightarrow> Inr (Finite (i < 0) m e))"

subsubsection \<open>\<^verbatim>\<open>float(s)\<close> of a string\<close>

fun us_ok :: "bool \<Rightarrow> string \<Rightarrow> bool" where
  "us_ok prev_digit [] = True"
| "us_ok prev_digit (c # cs) =
     (if c = CHR ''_'' then prev_digit \<and> cs \<noteq> [] \<and> is_digit (hd cs) \<and> us_ok False cs
      else us_ok (is_digit c) cs)"

definition nat_of_digits :: "string \<Rightarrow> nat" where
  "nat_of_digits ds = foldl (\<lambda>a c. 10 * a + digit_val c) 0 ds"

definition parse_exponent :: "string \<Rightarrow> int option" where
  "parse_exponent r = (case r of
       [] \<Rightarrow> Some 0
     | c # cs \<Rightarrow>
         (if c = CHR ''e'' \<or> c = CHR ''E'' then
            (case split_sign cs of (neg, ds) \<Rightarrow>
               if ds \<noteq> [] \<and> list_all is_digit ds
               then Some (if neg then - int (nat_of_digits ds) else int (nat_of_digits ds))
               else None)
          else None))"

text \<open>
  Digits, an optional point and fraction (digits on at least one side of the point), an
  optional exponent: the result \<open>(m, x)\<close> stands for \<open>m * 10 ^ x\<close>.
\<close>

definition parse_decimal :: "string \<Rightarrow> (nat \<times> int) option" where
  "parse_decimal s =
     (let ip = takeWhile is_digit s;
          r1 = dropWhile is_digit s;
          fp = (case r1 of [] \<Rightarrow> [] | c # t \<Rightarrow> if c = CHR ''.'' then takeWhile is_digit t else []);
          r2 = (case r1 of [] \<Rightarrow> [] | c # t \<Rightarrow> if c = CHR ''.'' then dropWhile is_digit t else r1)
      in if ip = [] \<and> fp = [] then None
         else (case parse_exponent r2 of
                 None \<Rightarrow> None
               | Some x \<Rightarrow> Some (nat_of_digits (ip @ fp), x - int (length fp))))"

definition fl_of_decimal :: "bool \<Rightarrow> nat \<Rightarrow> int \<Rightarrow> pyfloat" where
  "fl_of_decimal neg m x =
     (if 0 \<le> x then fl_make neg (m * 10 ^ nat x) 1 else fl_make neg m (10 ^ nat (- x)))"

definition py_float :: "string \<Rightarrow> py_error + pyfloat" where
  "py_float s = (case split_sign (py_strip s) of (neg, body) \<Rightarrow>
       if py_lower body = ''inf'' \<or> py_lower body = ''infinity'' then Inr (Infinity neg)
       else if py_lower body = ''nan'' then Inr NaN
       else if \<not> us_ok False body then Inl ValueError
       else (case parse_decimal (filter (\<lambda>c. c \<noteq> CHR ''_'') body) of
               None \<Rightarrow> Inl ValueError
             | Some (m, x) \<Rightarrow> Inr (fl_of_decimal neg m x)))"

subsubsection \<open>\<^verbatim>\<open>str(x)\<close> of a float\<close>

text \<open>
  Python prints the shortest decimal that reads back as the same float, and of those
  the one nearest to it (seventeen digits always suffice); with the exponent \<open>k\<close> of
  the decimal point, it uses the scientific form when \<open>k \<le> - 4\<close> or \<open>16 < k\<close>.
\<close>

function lead_zeros :: "nat \<Rightarrow> nat \<Rightarrow> nat" where
  "lead_zeros p q = (if p = 0 \<or> q \<le> p * 10 then 1 else Suc (lead_zeros (p * 10) q))"
  by pat_completeness auto
termination
  by (relation "measure (\<lambda>(p, q). q - p)") auto

definition dec_point :: "nat \<Rightarrow> nat \<Rightarrow> int" where
  "dec_point p q =
     (if q \<le> p then int (length (str_nat (p div q))) else 1 - int (lead_zeros p q))"

definition scaled :: "nat \<Rightarrow> nat \<Rightarrow> int \<Rightarrow> nat \<times> nat" where
  "scaled p q x = (if 0 \<le> x then (p, q * 10 ^ nat x) else (p * 10 ^ nat (- x), q))"

definition round_trips :: "nat \<Rightarrow> int \<Rightarrow> nat \<Rightarrow> int \<Rightarrow> bool" where
  "round_trips c x m e =
     ((if 0 \<le> x then fl_round (c * 10 ^ nat x) 1 else fl_round c (10 ^ nat (- x))) = Some (m, e))"

definition try_digits :: "nat \<Rightarrow> int \<Rightarrow> nat \<Rightarrow> nat \<Rightarrow> int \<Rightarrow> nat \<Rightarrow> (nat \<times> int) option" where
  "try_digits m e p q k n =
     (let x = k - int n;
          num = fst (scaled p q x);
          den = snd (scaled p q x);
          lo = num div den;
          hi = lo + 1;
          lo_ok = round_trips lo x m e;
          hi_ok = round_trips hi x m e
      in if lo_ok \<and> hi_ok then (if 2 * (num mod den) \<le> den then Some (lo, x) else Some (hi, x))
         else if lo_ok then Some (lo, x)
         else if hi_ok then Some (hi, x)
         else None)"

fun first_digits :: "nat \<Rightarrow> int \<Rightarrow> nat \<Rightarrow> nat \<Rightarrow> int \<Rightarrow> nat list \<Rightarrow> (nat \<times> int) option" where
  "first_digits m e p q k [] = None"
| "first_digits m e p q k (n # ns) =
     (case try_digits m e p q k n of Some r \<Rightarrow> Some r | None \<Rightarrow> first_digits m e p q k ns)"

definition strip_zeros :: "string \<Rightarrow> string" where
  "strip_zeros ds = rev (dropWhile (\<lambda>c. c = CHR ''0'') (rev ds))"

definition two_digits :: "nat \<Rightarrow> string" where
  "two_digits n = (if n < 10 then CHR ''0'' # str_nat n else str_nat n)"

definition format_short :: "string \<Rightarrow> int \<Rightarrow> string" where
  "format_short ds k =
     (if - 4 < k \<and> k \<le> 16 then
        (if k \<le> 0 then ''0.'' @ replicate (nat (- k)) (CHR ''0'') @ ds
         else if int (length ds) \<le> k then ds @ replicate (nat k - length ds) (CHR ''0'') @ ''.0''
         else take (nat k) ds @ ''.'' @ drop (nat k) ds)
      else
        (hd ds # (if 1 < length ds then CHR ''.'' # tl ds else [])) @ ''e''
        @ (if k - 1 < 0 then ''-'' else ''+'') @ two_digits (nat \<bar>k - 1\<bar>))"

definition repr_pos :: "nat \<Rightarrow> int \<Rightarrow> string" where
  "repr_pos m e =
     (let p = (if 0 \<le> e then m * pow2 e else m);
          q = (if 0 \<le> e then 1 else pow2 (- e));
          k = dec_point p q
      in case first_digits m e p q k [1, 2, 3, 4, 5, 6, 7, 8, 9, 10, 11, 12, 13, 14, 15, 16, 17] of
           None \<Rightarrow> []
         | Some (c, x) \<Rightarrow> format_short (strip_zeros (str_nat c)) (x + int (length (str_nat c))))"

definition fl_repr :: "pyfloat \<Rightarrow> string" where
  "fl_repr x = (case x of
       NaN \<Rightarrow> ''nan''
     | Infinity s \<Rightarrow> (if s then ''-inf'' else ''inf'')
     | Finite s m e \<Rightarrow> (if s then ''-'' else []) @ (if m = 0 then ''0.0'' else repr_pos m e))"

text \<open>
  The format \<^verbatim>\<open>:.4f\<close>: the exact value rounded to four decimals, ties to even.
\<close>

definition fl_format_4f :: "pyfloat \<Rightarrow> string" where
  "fl_format_4f x = (case x of
       NaN \<Rightarrow> ''nan''
     | Infinity s \<Rightarrow> (if s then ''-inf'' else ''inf'')
     | Finite s m e \<Rightarrow>
         (let num = (if 0 \<le> e then m * pow2 e else m) * 10000;
              den = (if 0 \<le> e then 1 else pow2 (- e));
              n = num div den;
              r = num mod den;
              n' = (if den < 2 * r \<or> (2 * r = den \<and> odd n) then n + 1 else n);
              frac = str_nat (n' mod 10000)
          in (if s then ''-'' else []) @ str_nat (n' div 10000) @ ''.''
             @ replicate (4 - length frac) (CHR ''0'') @ frac))"

subsection \<open>Numbers and the functions of \<^verbatim>\<open>operator\<close>\<close>

datatype pynum = PInt int | PFloat pyfloat

definition to_float :: "pynum \<Rightarrow> py_error + pyfloat" where
  "to_float v = (case v of PInt i \<Rightarrow> fl_of_int i | PFloat x \<Rightarrow> Inr x)"

text \<open>
  An operation with a float operand converts both operands to floats (an \<^verbatim>\<open>int\<close>
  beyond the float range raises \<^verbatim>\<open>OverflowError\<close>) and then works on floats.
\<close>

definition float_op ::
  "(pyfloat \<Rightarrow> pyfloat \<Rightarrow> py_error + pyfloat) \<Rightarrow> pynum \<Rightarrow> pynum \<Rightarrow> py_error + pynum" where
  "float_op f a b =
     (case to_float a of Inl err \<Rightarrow> Inl err | Inr x \<Rightarrow>
        (case to_float b of Inl err \<Rightarrow> Inl err | Inr y \<Rightarrow>
           (case f x y of Inl err \<Rightarrow> Inl err | Inr z \<Rightarrow> Inr (PFloat z))))"

definition py_add :: "pynum \<Rightarrow> pynum \<Rightarrow> py_error + pynum" where
  "py_add a b = (case (a, b) of
       (PInt i, PInt j) \<Rightarrow> Inr (PInt (i + j))
     | _ \<Rightarrow> float_op (\<lambda>x y. Inr (fl_add x y)) a b)"

definition py_sub :: "pynum \<Rightarrow> pynum \<Rightarrow> py_error + pynum" where
  "py_sub a b = (case (a, b) of
       (PInt i, PInt j) \<Rightarrow> Inr (PInt (i - j))
     | _ \<Rightarrow> float_op (\<lambda>x y. Inr (fl_sub x y)) a b)"

definition py_mul :: "pynum \<Rightarrow> pynum \<Rightarrow> py_error + pynum" where
  "py_mul a b = (case (a, b) of
       (PInt i, PInt j) \<Rightarrow> Inr (PInt (i * j))
     | _ \<Rightarrow> float_op (\<lambda>x y. Inr (fl_mul x y)) a b)"

text \<open>
  \<^verbatim>\<open>truediv\<close> of two integers is their quotient rounded once to a float; it raises
  \<^verbatim>\<open>ZeroDivisionError\<close> for the divisor 0 and \<^verbatim>\<open>OverflowError\<close> for a quotient beyond
  the float range.
\<close>

definition py_truediv :: "pynum \<Rightarrow> pynum \<Rightarrow> py_error + pynum" where
  "py_truediv a b = (case (a, b) of
       (PInt i, PInt j) \<Rightarrow>
         (if j = 0 then Inl ZeroDivisionError
          else (case fl_round (nat \<bar>i\<bar>) (nat \<bar>j\<bar>) of
                  None \<Rightarrow> Inl OverflowError
                | Some (m, e) \<Rightarrow> Inr (PFloat (Finite ((i < 0) \<noteq> (j < 0)) m e))))
     | _ \<Rightarrow> float_op fl_div a b)"

definition py_str :: "pynum \<Rightarrow> string" where
  "py_str v = (case v of PInt i \<Rightarrow> py_str_int i | PFloat x \<Rightarrow> fl_repr x)"

text \<open>The comparison \<^verbatim>\<open>v == 0\<close>.\<close>

definition eq_zero :: "pynum \<Rightarrow> bool" where
  "eq_zero v = (case v of PInt i \<Rightarrow> i = 0 | PFloat x \<Rightarrow> fl_is_zero x)"

section \<open>Rock-Paper-Scissors (RPS/RPS.py)\<close>

text \<open>
  \<^verbatim>\<open>OPTIONS = ("rock", "paper", "scissors")\<close>
\<close>

definition OPTIONS :: "string list" where
  "OPTIONS = [''rock'', ''paper'', ''scissors'']"

text \<open>
  The local set literal \<^verbatim>\<open>wins\<close> of \<^verbatim>\<open>determine_winner\<close>, kept as the list of its
  three pairs; membership is all the function asks of it.
\<close>

definition wins :: "(string \<times> string) list" where
  "wins = [(''rock'', ''scissors''), (''paper'', ''rock''), (''scissors'', ''paper'')]"

text \<open>
  \<^verbatim>\<open>
  def determine_winner(user, computer):
      if user == computer:
          return 0
      wins = {...}
      return 1 if (user, computer) in wins else -1
  \<close>
  The function accepts any two strings; 1 is "user wins", -1 "computer wins", 0 "tie".
\<close>

definition determine_winner :: "string \<Rightarrow> string \<Rightarrow> int" where
  "determine_winner user computer =
     (if user = computer then 0
      else if (user, computer) \<in> set wins then 1 else -1)"

section \<open>Calculator (Calculator/Calculator.py)\<close>

text \<open>
  \<^verbatim>\<open>operations = {"+": add, "-": sub, "*": mul, "/": truediv}\<close>: a lookup of
  another key raises \<^verbatim>\<open>KeyError\<close>, here \<open>None\<close>.
\<close>

definition operations :: "string \<Rightarrow> (pynum \<Rightarrow> pynum \<Rightarrow> py_error + pynum) option" where
  "operations sign =
     (if sign = ''+'' then Some py_add
      else if sign = ''-'' then Some py_sub
      else if sign = ''*'' then Some py_mul
      else if sign = ''/'' then Some py_truediv
      else None)"

definition ERROR_ZERO_DIV :: string where
  "ERROR_ZERO_DIV = ''Division by zero''"

definition ERROR_UNDEFINED :: string where
  "ERROR_UNDEFINED = ''Result is undefined''"

text \<open>
  The state of a \<^verbatim>\<open>Calculator\<close> window that its methods read and write:
  \<^item> \<open>lineEdit\<close>: \<^verbatim>\<open>self.ui.lineEdit.text()\<close>, the entry field;
  \<^item> \<open>label\<close>: \<^verbatim>\<open>self.ui.label.text()\<close>, the line of the pending expression;
  \<^item> \<open>is_result_shown\<close>: the attribute of that name;
  \<^item> \<open>buttons_disabled\<close>: whether \<^verbatim>\<open>btn_calc\<close>, \<^verbatim>\<open>btn_add\<close>, \<^verbatim>\<open>btn_sub\<close>,
    \<^verbatim>\<open>btn_mul\<close> and \<^verbatim>\<open>btn_div\<close> are disabled; \<^verbatim>\<open>disable_buttons\<close> is the only
    writer and sets the five together.

  The widgets come from \<^verbatim>\<open>Calculator.ui.design\<close>, which is generated code outside
  the sources; the field's maximal length, set there, is taken to be more than the
  texts in play, so that \<^verbatim>\<open>setText\<close> stores its argument.
\<close>

record calc =
  lineEdit :: string
  label :: string
  is_result_shown :: bool
  buttons_disabled :: bool

text \<open>
  Modelled from the spec: the texts the two widgets start with, which
  \<^verbatim>\<open>Calculator/ui/design.py\<close> sets and which is not among the sources. The spec has
  the entry default to \<^verbatim>\<open>0\<close> and the initial state with an empty pending
  expression and all buttons in use. The flag is from the source: \<^verbatim>\<open>__init__\<close> sets
  \<^verbatim>\<open>self.is_result_shown = False\<close>.
\<close>

definition init :: calc where
  "init = \<lparr>lineEdit = ''0'', label = [], is_result_shown = False, buttons_disabled = False\<rparr>"

text \<open>
  The names an instance of \<^verbatim>\<open>Calculator\<close> resolves from its own code: the three
  attributes \<^verbatim>\<open>__init__\<close> assigns and the eighteen methods the class body defines.
  The base class \<^verbatim>\<open>QMainWindow\<close> is Qt's; its interface has no member
  \<^verbatim>\<open>clear_temp\<close>, and \<^verbatim>\<open>setupUi\<close> keeps the widgets in \<^verbatim>\<open>self.ui\<close>. An attribute reference to any other name raises
  \<^verbatim>\<open>AttributeError\<close>.
\<close>

definition Calculator_attributes :: "string list" where
  "Calculator_attributes =
     [''ui'', ''entry_max_len'', ''is_result_shown'',
      ''__init__'', ''_connect_buttons'', ''add_digit'', ''add_point'', ''negate'',
      ''backspace'', ''clear_all'', ''remove_zeros'', ''get_entry'', ''get_temp'',
      ''get_mathsign'', ''calculate'', ''math_operation'', ''show_error'', ''remove_error'',
      ''disable_buttons'', ''adjust_entry_font_size'', ''adjust_temp_font_size'']"

definition getattr_self :: "string \<Rightarrow> calc \<Rightarrow> (unit, calc) outcome" where
  "getattr_self name s =
     (if name \<in> set Calculator_attributes then Returned () s else Raised AttributeError s)"

text \<open>
  The statement \<^verbatim>\<open>self.clear_temp()\<close>: the attribute reference comes first, and the
  call would follow it.
\<close>

definition clear_temp :: "calc \<Rightarrow> (unit, calc) outcome" where
  "clear_temp s = getattr_self ''clear_temp'' s"

text \<open>
  \<^verbatim>\<open>adjust_entry_font_size\<close> and \<^verbatim>\<open>adjust_temp_font_size\<close> read the widths of
  the widgets and of the rendered text and write the style sheets; none of the four
  fields above is read or written, and the loops are taken to end (they are Qt's
  rendering at work). The handlers call them after their last change of the state.
\<close>

definition adjust_entry_font_size :: "calc \<Rightarrow> calc" where
  "adjust_entry_font_size s = s"

definition adjust_temp_font_size :: "calc \<Rightarrow> calc" where
  "adjust_temp_font_size s = s"

subsection \<open>Error handling\<close>

definition disable_buttons :: "bool \<Rightarrow> calc \<Rightarrow> calc" where
  "disable_buttons disable s = s\<lparr>buttons_disabled := disable\<rparr>"

text \<open>
  \<^verbatim>\<open>
  def show_error(self, text):
      self.ui.lineEdit.setText(text)
      self.disable_buttons(True)
  \<close>
\<close>

definition show_error :: "string \<Rightarrow> calc \<Rightarrow> calc" where
  "show_error text s = disable_buttons True (s\<lparr>lineEdit := text\<rparr>)"

text \<open>
  The test of \<^verbatim>\<open>remove_error\<close>, which is how the program tells that an error is on
  display: \<^verbatim>\<open>self.ui.lineEdit.text() in (ERROR_ZERO_DIV, ERROR_UNDEFINED)\<close>.
\<close>

definition error_shown :: "calc \<Rightarrow> bool" where
  "error_shown s = (lineEdit s \<in> set [ERROR_ZERO_DIV, ERROR_UNDEFINED])"

text \<open>
  \<^verbatim>\<open>
  def remove_error(self):
      if self.ui.lineEdit.text() in (ERROR_ZERO_DIV, ERROR_UNDEFINED):
          self.ui.lineEdit.setText("0")
          self.disable_buttons(False)
  \<close>
\<close>

definition remove_error :: "calc \<Rightarrow> calc" where
  "remove_error s =
     (if error_shown s then disable_buttons False (s\<lparr>lineEdit := ''0''\<rparr>) else s)"

subsection \<open>Input handling\<close>

text \<open>
  \<^verbatim>\<open>
  def add_digit(self, digit):
      self.remove_error()
      self.clear_temp()
      if self.is_result_shown:
          self.ui.lineEdit.setText("0")
          self.is_result_shown = False
      current = self.ui.lineEdit.text()
      if current == "0":
          self.ui.lineEdit.setText(digit)
      else:
          self.ui.lineEdit.setText(current + digit)
      self.adjust_entry_font_size()
  \<close>
\<close>

definition add_digit :: "string \<Rightarrow> calc \<Rightarrow> (unit, calc) outcome" where
  "add_digit digit s =
     bind (clear_temp (remove_error s)) (\<lambda>_ s1.
       let s2 = (if is_result_shown s1
                 then s1\<lparr>lineEdit := ''0'', is_result_shown := False\<rparr> else s1);
           current = lineEdit s2;
           s3 = (if current = ''0'' then s2\<lparr>lineEdit := digit\<rparr>
                 else s2\<lparr>lineEdit := current @ digit\<rparr>)
       in Returned () (adjust_entry_font_size s3))"

text \<open>
  \<^verbatim>\<open>
  def add_point(self):
      self.clear_temp()
      if self.is_result_shown:
          self.ui.lineEdit.setText("0")
          self.is_result_shown = False
      if "." not in self.ui.lineEdit.text():
          self.ui.lineEdit.setText(self.ui.lineEdit.text() + ".")
          self.adjust_entry_font_size()
  \<close>
\<close>

definition add_point :: "calc \<Rightarrow> (unit, calc) outcome" where
  "add_point s =
     bind (clear_temp s) (\<lambda>_ s1.
       let s2 = (if is_result_shown s1
                 then s1\<lparr>lineEdit := ''0'', is_result_shown := False\<rparr> else s1)
       in if CHR ''.'' \<notin> set (lineEdit s2)
          then Returned () (adjust_entry_font_size (s2\<lparr>lineEdit := lineEdit s2 @ ''.''\<rparr>))
          else Returned () s2)"

text \<open>
  \<^verbatim>\<open>
  def negate(self):
      self.clear_temp()
      entry = self.ui.lineEdit.text()
      if entry.startswith("-"):
          entry = entry[1:]
      elif entry != "0":
          entry = "-" + entry
      self.ui.lineEdit.setText(entry)
      self.adjust_entry_font_size()
  \<close>
\<close>

definition negate :: "calc \<Rightarrow> (unit, calc) outcome" where
  "negate s =
     bind (clear_temp s) (\<lambda>_ s1.
       let entry = lineEdit s1;
           entry' = (if startswith entry ''-'' then drop 1 entry
                     else if entry \<noteq> ''0'' then ''-'' @ entry
                     else entry)
       in Returned () (adjust_entry_font_size (s1\<lparr>lineEdit := entry'\<rparr>)))"

text \<open>
  \<^verbatim>\<open>
  def backspace(self):
      self.remove_error()
      self.clear_temp()
      if self.is_result_shown:
          self.ui.lineEdit.setText("0")
          self.is_result_shown = False
          return
      entry = self.ui.lineEdit.text()
      if len(entry) > 1:
          self.ui.lineEdit.setText(entry[:-1])
      else:
          self.ui.lineEdit.setText("0")
      self.adjust_entry_font_size()
  \<close>
\<close>

definition backspace :: "calc \<Rightarrow> (unit, calc) outcome" where
  "backspace s =
     bind (clear_temp (remove_error s)) (\<lambda>_ s1.
       if is_result_shown s1
       then Returned () (s1\<lparr>lineEdit := ''0'', is_result_shown := False\<rparr>)
       else
         let entry = lineEdit s1
         in Returned () (adjust_entry_font_size
              (if 1 < length entry then s1\<lparr>lineEdit := butlast entry\<rparr>
               else s1\<lparr>lineEdit := ''0''\<rparr>)))"

text \<open>
  \<^verbatim>\<open>
  def clear_all(self):
      self.remove_error()
      self.ui.lineEdit.setText("0")
      self.ui.label.clear()
      self.is_result_shown = False
      self.adjust_entry_font_size()
      self.adjust_temp_font_size()
  \<close>
\<close>

definition clear_all :: "calc \<Rightarrow> (unit, calc) outcome" where
  "clear_all s =
     Returned () (adjust_temp_font_size (adjust_entry_font_size
       ((remove_error s)\<lparr>lineEdit := ''0'', label := [], is_result_shown := False\<rparr>)))"

subsection \<open>Calculation logic\<close>

text \<open>
  \<^verbatim>\<open>
  def remove_zeros(num):
      n = str(float(num))
      return n[:-2] if n.endswith(".0") else n
  \<close>
\<close>

definition remove_zeros :: "string \<Rightarrow> py_error + string" where
  "remove_zeros num =
     (case py_float num of
        Inl err \<Rightarrow> Inl err
      | Inr x \<Rightarrow>
          (let n = fl_repr x in Inr (if endswith n ''.0'' then take (length n - 2) n else n)))"

text \<open>
  The expression both getters end with:
  \<^verbatim>\<open>float(t) if "." in t else int(t)\<close>.
\<close>

definition parse_number :: "string \<Rightarrow> py_error + pynum" where
  "parse_number t =
     (if CHR ''.'' \<in> set t then map_sum id PFloat (py_float t) else map_sum id PInt (py_int t))"

definition get_entry :: "calc \<Rightarrow> py_error + pynum" where
  "get_entry s = parse_number (lineEdit s)"

text \<open>
  \<^verbatim>\<open>
  def get_temp(self):
      if self.ui.label.text():
          temp = self.ui.label.text().split()[0]
          return float(temp) if "." in temp else int(temp)
      return None
  \<close>
  A label of blanks only splits into no words, and the index raises.
\<close>

definition get_temp :: "calc \<Rightarrow> py_error + pynum option" where
  "get_temp s =
     (if label s \<noteq> [] then
        (case py_split (label s) of
           [] \<Rightarrow> Inl IndexError
         | temp # _ \<Rightarrow> map_sum id Some (parse_number temp))
      else Inr None)"

text \<open>
  \<^verbatim>\<open>
  def get_mathsign(self):
      if self.ui.label.text():
          return self.ui.label.text().split()[-1]
      return None
  \<close>
\<close>

definition get_mathsign :: "calc \<Rightarrow> py_error + string option" where
  "get_mathsign s =
     (if label s \<noteq> [] then
        (case py_split (label s) of
           [] \<Rightarrow> Inl IndexError
         | w # ws \<Rightarrow> Inr (Some (last (w # ws))))
      else Inr None)"

text \<open>The two values as an f-string prints them.\<close>

definition str_temp :: "pynum option \<Rightarrow> string" where
  "str_temp v = (case v of None \<Rightarrow> ''None'' | Some n \<Rightarrow> py_str n)"

definition str_mathsign :: "string option \<Rightarrow> string" where
  "str_mathsign v = (case v of None \<Rightarrow> ''None'' | Some t \<Rightarrow> t)"

text \<open>
  The first two statements of the \<^verbatim>\<open>try\<close> block of \<^verbatim>\<open>calculate\<close>, which change
  no state:
  \<^verbatim>\<open>
  result = operations[self.get_mathsign()](self.get_temp(), self.get_entry())
  result = self.remove_zeros(str(result))
  \<close>
  Python evaluates the subscript, then the two arguments from left to right, then the
  call. An operand \<^verbatim>\<open>None\<close> is a \<^verbatim>\<open>TypeError\<close> of the four functions.
\<close>

definition apply_operation :: "calc \<Rightarrow> py_error + string" where
  "apply_operation s =
     (case get_mathsign s of Inl err \<Rightarrow> Inl err | Inr sign \<Rightarrow>
      (case (case sign of None \<Rightarrow> None | Some t \<Rightarrow> operations t) of
         None \<Rightarrow> Inl KeyError
       | Some f \<Rightarrow>
          (case get_temp s of Inl err \<Rightarrow> Inl err | Inr temp \<Rightarrow>
           (case get_entry s of Inl err \<Rightarrow> Inl err | Inr entry \<Rightarrow>
            (case temp of None \<Rightarrow> Inl TypeError | Some left \<Rightarrow>
             (case f left entry of Inl err \<Rightarrow> Inl err | Inr result \<Rightarrow>
                remove_zeros (py_str result)))))))"

text \<open>
  \<^verbatim>\<open>
  def calculate(self):
      if not self.ui.label.text():
          return None
      try:
          result = ...                      # apply_operation
          self.ui.label.setText(
              f"{self.get_temp()} {self.get_mathsign()} {self.ui.lineEdit.text()} =")
          self.ui.lineEdit.setText(result)
          self.is_result_shown = True
          self.adjust_entry_font_size()
          self.adjust_temp_font_size()
          return result
      except ZeroDivisionError:
          if self.get_temp() == 0:
              self.show_error(ERROR_UNDEFINED)
          else:
              self.show_error(ERROR_ZERO_DIV)
      except KeyError:
          return None
  \<close>
  Any other exception leaves the method.
\<close>

definition calculate :: "calc \<Rightarrow> (string option, calc) outcome" where
  "calculate s =
     (if label s = [] then Returned None s
      else
        (case apply_operation s of
           Inr result \<Rightarrow>
             (case get_temp s of Inl err \<Rightarrow> Raised err s | Inr temp \<Rightarrow>
              (case get_mathsign s of Inl err \<Rightarrow> Raised err s | Inr sign \<Rightarrow>
                 Returned (Some result)
                   (adjust_temp_font_size (adjust_entry_font_size
                     (s\<lparr>label := str_temp temp @ '' '' @ str_mathsign sign @ '' ''
                                   @ lineEdit s @ '' ='',
                        lineEdit := result,
                        is_result_shown := True\<rparr>)))))
         | Inl ZeroDivisionError \<Rightarrow>
             (case get_temp s of Inl err \<Rightarrow> Raised err s | Inr temp \<Rightarrow>
                if (case temp of None \<Rightarrow> False | Some left \<Rightarrow> eq_zero left)
                then Returned None (show_error ERROR_UNDEFINED s)
                else Returned None (show_error ERROR_ZERO_DIV s))
         | Inl KeyError \<Rightarrow> Returned None s
         | Inl err \<Rightarrow> Raised err s))"

text \<open>
  \<^verbatim>\<open>
  def math_operation(self, sign):
      if not self.ui.label.text():
          self.ui.label.setText(self.remove_zeros(self.ui.lineEdit.text()) + f" {sign}")
          self.ui.lineEdit.setText("0")
      else:
          if self.get_mathsign() == "=":
              self.ui.label.setText(self.remove_zeros(self.ui.lineEdit.text()) + f" {sign}")
          else:
              self.ui.label.setText(self.ui.label.text()[:-1] + sign)
      self.is_result_shown = False
      self.adjust_temp_font_size()
  \<close>
\<close>

definition math_operation :: "string \<Rightarrow> calc \<Rightarrow> (unit, calc) outcome" where
  "math_operation sign s =
     bind
       (if label s = [] then
          bind (lift s (remove_zeros (lineEdit s))) (\<lambda>z s1.
            Returned () (s1\<lparr>label := z @ '' '' @ sign, lineEdit := ''0''\<rparr>))
        else
          bind (lift s (get_mathsign s)) (\<lambda>m s1.
            if m = Some ''='' then
              bind (lift s1 (remove_zeros (lineEdit s1))) (\<lambda>z s2.
                Returned () (s2\<lparr>label := z @ '' '' @ sign\<rparr>))
            else Returned () (s1\<lparr>label := butlast (label s1) @ sign\<rparr>)))
       (\<lambda>_ s3. Returned () (adjust_temp_font_size (s3\<lparr>is_result_shown := False\<rparr>)))"

subsection \<open>The buttons\<close>

text \<open>
  \<^verbatim>\<open>_connect_buttons\<close> connects \<^verbatim>\<open>btn_0\<close> to \<^verbatim>\<open>btn_9\<close> to \<^verbatim>\<open>add_digit\<close> with
  the digit \<^verbatim>\<open>str(i)\<close>, and the other ten buttons as \<open>slot\<close> says. Qt delivers no
  click of a disabled button; an exception that leaves a slot is reported on the
  standard error stream and the event loop goes on, with the state as the slot left it.
\<close>

datatype button = Btn nat | Btn_clear | Btn_point | Btn_neg | Btn_backspace
  | Btn_calc | Btn_add | Btn_sub | Btn_mul | Btn_div

definition slot :: "button \<Rightarrow> calc \<Rightarrow> calc" where
  "slot b s = (case b of
       Btn i \<Rightarrow> state_of (add_digit (str_nat i) s)
     | Btn_clear \<Rightarrow> state_of (clear_all s)
     | Btn_point \<Rightarrow> state_of (add_point s)
     | Btn_neg \<Rightarrow> state_of (negate s)
     | Btn_backspace \<Rightarrow> state_of (backspace s)
     | Btn_calc \<Rightarrow> state_of (calculate s)
     | Btn_add \<Rightarrow> state_of (math_operation ''+'' s)
     | Btn_sub \<Rightarrow> state_of (math_operation ''-'' s)
     | Btn_mul \<Rightarrow> state_of (math_operation ''*'' s)
     | Btn_div \<Rightarrow> state_of (math_operation ''/'' s))"

text \<open>The buttons of \<^verbatim>\<open>disable_buttons\<close>.\<close>

definition operation_buttons :: "button list" where
  "operation_buttons = [Btn_calc, Btn_add, Btn_sub, Btn_mul, Btn_div]"

definition click :: "calc \<Rightarrow> button \<Rightarrow> calc" where
  "click s b = (if b \<in> set operation_buttons \<and> buttons_disabled s then s else slot b s)"

definition run :: "calc \<Rightarrow> button list \<Rightarrow> calc" where
  "run s bs = foldl click s bs"

section \<open>Currency converter (CurrencyConverter/CurrencyConverter.py)\<close>

text \<open>
  What \<^verbatim>\<open>resp.json()\<close> can return. A \<open>JDict\<close> lists the items of the \<^verbatim>\<open>dict\<close> in
  their order, each key once.
\<close>

datatype json = JNull | JBool bool | JInt int | JFloat pyfloat | JStr string
  | JList "json list" | JDict "(string \<times> json) list"

text \<open>
  The surroundings of the program:
  \<^item> \<open>API_KEY\<close>: the value of \<^verbatim>\<open>os.getenv("CURRENCY_API_KEY")\<close>, read once when the
    module is loaded; \<open>None\<close> when the variable is not set;
  \<^item> \<open>response n url\<close>: what the three statements
    \<^verbatim>\<open>resp = requests.get(url, timeout=timeout); resp.raise_for_status(); return resp.json()\<close>
    yield for the request number \<open>n\<close> (from 0) of the run: the parsed body, or the
    exception they raise (a \<open>RequestException\<close> or a \<open>ValueError\<close>);
  \<^item> \<open>str_container\<close>: the text \<^verbatim>\<open>str()\<close> gives for a list or a dict.
\<close>

record env =
  API_KEY :: "string option"
  response :: "nat \<Rightarrow> string \<Rightarrow> py_error + json"
  str_container :: "json \<Rightarrow> string"

text \<open>
  The console and the network as the program meets them: the lines still to be read
  from the standard input, and what the program has done so far, in order.
\<close>

datatype io = Printed string | Prompted string | Requested string

record world =
  stdin :: "string list"
  trace :: "io list"

definition is_request :: "io \<Rightarrow> bool" where
  "is_request x = (case x of Requested url \<Rightarrow> True | _ \<Rightarrow> False)"

definition py_print :: "string \<Rightarrow> world \<Rightarrow> world" where
  "py_print text w = w\<lparr>trace := trace w @ [Printed text]\<rparr>"

text \<open>\<^verbatim>\<open>input(prompt)\<close> raises \<^verbatim>\<open>EOFError\<close> at the end of the input.\<close>

definition py_input :: "string \<Rightarrow> world \<Rightarrow> (string, world) outcome" where
  "py_input prompt w =
     (case stdin w of
        [] \<Rightarrow> Raised EOFError (w\<lparr>trace := trace w @ [Prompted prompt]\<rparr>)
      | line # rest \<Rightarrow> Returned line (w\<lparr>stdin := rest, trace := trace w @ [Prompted prompt]\<rparr>))"

definition BASE_URL :: string where
  "BASE_URL = ''https://free.currconv.com/''"

text \<open>\<^verbatim>\<open>not API_KEY\<close>: the key is \<^verbatim>\<open>None\<close> or the empty string.\<close>

definition no_key :: "env \<Rightarrow> bool" where
  "no_key E = (case API_KEY E of None \<Rightarrow> True | Some k \<Rightarrow> k = [])"

text \<open>The key as an f-string prints it.\<close>

definition str_key :: "env \<Rightarrow> string" where
  "str_key E = (case API_KEY E of None \<Rightarrow> ''None'' | Some k \<Rightarrow> k)"

definition KEY_MESSAGE :: string where
  "KEY_MESSAGE = ''CURRENCY_API_KEY is not set. Export it or put it in your .env.''"

text \<open>
  \<^verbatim>\<open>
  def api_get_json(endpoint, timeout=10):
      if not API_KEY:
          raise RuntimeError("CURRENCY_API_KEY is not set. Export it or put it in your .env.")
      url = BASE_URL + endpoint
      resp = requests.get(url, timeout=timeout)
      resp.raise_for_status()
      return resp.json()
  \<close>
\<close>

definition api_get_json :: "env \<Rightarrow> string \<Rightarrow> world \<Rightarrow> (json, world) outcome" where
  "api_get_json E endpoint w =
     (if no_key E then Raised (RuntimeError KEY_MESSAGE) w
      else
        let url = BASE_URL @ endpoint
        in lift (w\<lparr>trace := trace w @ [Requested url]\<rparr>)
             (response E (length (filter is_request (trace w))) url))"

subsection \<open>Values of the response\<close>

text \<open>\<^verbatim>\<open>d.get(key, default)\<close>; only a dict has the method.\<close>

definition json_get :: "json \<Rightarrow> string \<Rightarrow> json \<Rightarrow> py_error + json" where
  "json_get d key dflt =
     (case d of
        JDict items \<Rightarrow> Inr (case map_of items key of None \<Rightarrow> dflt | Some v \<Rightarrow> v)
      | _ \<Rightarrow> Inl AttributeError)"

text \<open>\<^verbatim>\<open>not data\<close>.\<close>

definition json_falsy :: "json \<Rightarrow> bool" where
  "json_falsy d = (case d of
       JNull \<Rightarrow> True
     | JBool b \<Rightarrow> \<not> b
     | JInt i \<Rightarrow> i = 0
     | JFloat x \<Rightarrow> fl_is_zero x
     | JStr s \<Rightarrow> s = []
     | JList xs \<Rightarrow> xs = []
     | JDict items \<Rightarrow> items = [])"

definition json_str :: "env \<Rightarrow> json \<Rightarrow> string" where
  "json_str E d = (case d of
       JNull \<Rightarrow> ''None''
     | JBool b \<Rightarrow> (if b then ''True'' else ''False'')
     | JInt i \<Rightarrow> py_str_int i
     | JFloat x \<Rightarrow> fl_repr x
     | JStr s \<Rightarrow> s
     | _ \<Rightarrow> str_container E d)"

text \<open>\<^verbatim>\<open>float(rate)\<close> of a value that is not \<^verbatim>\<open>None\<close>.\<close>

definition json_float :: "json \<Rightarrow> py_error + pyfloat" where
  "json_float d = (case d of
       JBool b \<Rightarrow> fl_of_int (if b then 1 else 0)
     | JInt i \<Rightarrow> fl_of_int i
     | JFloat x \<Rightarrow> Inr x
     | JStr s \<Rightarrow> py_float s
     | _ \<Rightarrow> Inl TypeError)"

text \<open>The order of strings, by code points, and the stable sort by the key.\<close>

fun str_le :: "string \<Rightarrow> string \<Rightarrow> bool" where
  "str_le [] t = True"
| "str_le (c # cs) [] = False"
| "str_le (c # cs) (d # ds) =
     ((of_char c :: nat) < of_char d \<or> (c = d \<and> str_le cs ds))"

fun insert_item :: "string \<times> json \<Rightarrow> (string \<times> json) list \<Rightarrow> (string \<times> json) list" where
  "insert_item x [] = [x]"
| "insert_item x (y # ys) =
     (if str_le (fst x) (fst y) then x # y # ys else y # insert_item x ys)"

definition sort_items :: "(string \<times> json) list \<Rightarrow> (string \<times> json) list" where
  "sort_items items = foldr insert_item items []"

subsection \<open>The commands\<close>

text \<open>
  \<^verbatim>\<open>
  def get_currencies():
      endpoint = f"api/v7/currencies?apiKey={API_KEY}"
      data = api_get_json(endpoint).get("results", {})
      items = list(data.items())
      items.sort(key=lambda x: x[0])
      return items
  \<close>
\<close>

definition get_currencies :: "env \<Rightarrow> world \<Rightarrow> ((string \<times> json) list, world) outcome" where
  "get_currencies E w =
     (let endpoint = ''api/v7/currencies?apiKey='' @ str_key E
      in bind (api_get_json E endpoint w) (\<lambda>j w1.
           bind (lift w1 (json_get j ''results'' (JDict []))) (\<lambda>data w2.
             (case data of
                JDict items \<Rightarrow> Returned (sort_items items) w2
              | _ \<Rightarrow> Raised AttributeError w2))))"

text \<open>
  \<^verbatim>\<open>
  def print_currencies(currencies):
      for _, currency in currencies:
          name = currency.get("currencyName", "")
          code = currency.get("id", "")
          symbol = currency.get("currencySymbol", "")
          print(f"{code} - {name} - {symbol}")
  \<close>
\<close>

fun print_currencies :: "env \<Rightarrow> (string \<times> json) list \<Rightarrow> world \<Rightarrow> (unit, world) outcome" where
  "print_currencies E [] w = Returned () w"
| "print_currencies E (item # rest) w =
     bind (lift w (json_get (snd item) ''currencyName'' (JStr []))) (\<lambda>name w1.
       bind (lift w1 (json_get (snd item) ''id'' (JStr []))) (\<lambda>code w2.
         bind (lift w2 (json_get (snd item) ''currencySymbol'' (JStr []))) (\<lambda>symbol w3.
           print_currencies E rest
             (py_print (json_str E code @ '' - '' @ json_str E name @ '' - '' @ json_str E symbol)
                w3))))"

text \<open>
  \<^verbatim>\<open>
  def exchange_rate(cur1, cur2):
      pair = f"{cur1}_{cur2}"
      endpoint = f"api/v7/convert?q={pair}&compact=ultra&apiKey={API_KEY}"
      data = api_get_json(endpoint)
      if not data:
          print("Invalid currencies or empty response.")
          return None
      rate = data.get(pair)
      if rate is None:
          print("Invalid currencies or unsupported pair.")
          return None
      print(f"{cur1} -> {cur2} = {rate}")
      return float(rate)
  \<close>
\<close>

definition exchange_rate :: "env \<Rightarrow> string \<Rightarrow> string \<Rightarrow> world \<Rightarrow> (pyfloat option, world) outcome" where
  "exchange_rate E cur1 cur2 w =
     (let pair = cur1 @ ''_'' @ cur2;
          endpoint = ''api/v7/convert?q='' @ pair @ ''&compact=ultra&apiKey='' @ str_key E
      in bind (api_get_json E endpoint w) (\<lambda>data w1.
           if json_falsy data
           then Returned None (py_print ''Invalid currencies or empty response.'' w1)
           else
             bind (lift w1 (json_get data pair JNull)) (\<lambda>rate w2.
               if rate = JNull
               then Returned None (py_print ''Invalid currencies or unsupported pair.'' w2)
               else
                 bind (lift (py_print (cur1 @ '' -> '' @ cur2 @ '' = '' @ json_str E rate) w2)
                         (json_float rate))
                   (\<lambda>x w3. Returned (Some x) w3))))"

text \<open>
  \<^verbatim>\<open>
  def convert(cur1, cur2, amount):
      rate = exchange_rate(cur1, cur2)
      if rate is None:
          return None
      try:
          value = float(amount)
      except ValueError:
          print("Invalid amount.")
          return None
      converted = rate * value
      print(f"{value} {cur1} is equal to {converted:.4f} {cur2}")
      return converted
  \<close>
  \<^verbatim>\<open>float\<close> of a string raises nothing but \<^verbatim>\<open>ValueError\<close>.
\<close>

definition convert :: "env \<Rightarrow> string \<Rightarrow> string \<Rightarrow> string \<Rightarrow> world \<Rightarrow> (pyfloat option, world) outcome" where
  "convert E cur1 cur2 amount w =
     bind (exchange_rate E cur1 cur2 w) (\<lambda>rate w1.
       (case rate of
          None \<Rightarrow> Returned None w1
        | Some r \<Rightarrow>
            (case py_float amount of
               Inl err \<Rightarrow> Returned None (py_print ''Invalid amount.'' w1)
             | Inr v \<Rightarrow>
                 Returned (Some (fl_mul r v))
                   (py_print (fl_repr v @ '' '' @ cur1 @ '' is equal to ''
                              @ fl_format_4f (fl_mul r v) @ '' '' @ cur2) w1))))"

subsection \<open>The command loop\<close>

text \<open>
  The body of the \<^verbatim>\<open>try\<close> statement of \<^verbatim>\<open>main\<close>, for the command read; the state is
  the local variable \<^verbatim>\<open>currencies_cache\<close> and the world.
  \<^verbatim>\<open>
  if command == "list":
      if currencies_cache is None:
          currencies_cache = get_currencies()
      print_currencies(currencies_cache)
  elif command == "convert":
      cur1 = input("Enter a currency you have: ").strip().upper()
      amount = input(f"Enter an amount in {cur1}: ").strip()
      cur2 = input("Enter a currency you want to get: ").strip().upper()
      convert(cur1, cur2, amount)
  elif command == "rate":
      cur1 = input("Enter a currency you have: ").strip().upper()
      cur2 = input("Enter a currency to convert to: ").strip().upper()
      exchange_rate(cur1, cur2)
  else:
      print("Unrecognized command.")
  \<close>
\<close>

type_synonym cache = "(string \<times> json) list option"

definition with_cache :: "cache \<Rightarrow> ('a, world) outcome \<Rightarrow> (unit, cache \<times> world) outcome" where
  "with_cache c r = (case r of Returned v w \<Rightarrow> Returned () (c, w) | Raised err w \<Rightarrow> Raised err (c, w))"

definition command_body :: "env \<Rightarrow> string \<Rightarrow> cache \<times> world \<Rightarrow> (unit, cache \<times> world) outcome" where
  "command_body E command st =
     (case st of (currencies_cache, w) \<Rightarrow>
        if command = ''list'' then
          (case currencies_cache of
             None \<Rightarrow>
               (case get_currencies E w of
                  Raised err w1 \<Rightarrow> Raised err (None, w1)
                | Returned items w1 \<Rightarrow> with_cache (Some items) (print_currencies E items w1))
           | Some items \<Rightarrow> with_cache (Some items) (print_currencies E items w))
        else if command = ''convert'' then
          with_cache currencies_cache
            (bind (py_input ''Enter a currency you have: '' w) (\<lambda>l1 w1.
               let cur1 = py_upper (py_strip l1)
               in bind (py_input (''Enter an amount in '' @ cur1 @ '': '') w1) (\<lambda>l2 w2.
                    let amount = py_strip l2
                    in bind (py_input ''Enter a currency you want to get: '' w2) (\<lambda>l3 w3.
                         let cur2 = py_upper (py_strip l3)
                         in convert E cur1 cur2 amount w3))))
        else if command = ''rate'' then
          with_cache currencies_cache
            (bind (py_input ''Enter a currency you have: '' w) (\<lambda>l1 w1.
               let cur1 = py_upper (py_strip l1)
               in bind (py_input ''Enter a currency to convert to: '' w1) (\<lambda>l2 w2.
                    let cur2 = py_upper (py_strip l2)
                    in exchange_rate E cur1 cur2 w2)))
        else Returned () (currencies_cache, py_print ''Unrecognized command.'' w))"

text \<open>
  One turn of \<^verbatim>\<open>while True\<close>: it returns \<open>True\<close> when the loop goes on and
  \<open>False\<close> after a \<^verbatim>\<open>break\<close>; an exception that no \<^verbatim>\<open>except\<close> clause names
  leaves \<^verbatim>\<open>main\<close>.
  \<^verbatim>\<open>
  command = input("Enter a command (q to quit): ").strip().lower()
  if command == "q":
      break
  try:
      ...
  except requests.RequestException as e:
      print(f"Network/API error: {e}")
  except RuntimeError as e:
      print(e)
      break
  except ValueError:
      print("Failed to parse API response.")
  \<close>
\<close>

definition turn :: "env \<Rightarrow> cache \<times> world \<Rightarrow> (bool, cache \<times> world) outcome" where
  "turn E st =
     (case py_input ''Enter a command (q to quit): '' (snd st) of
        Raised err w1 \<Rightarrow> Raised err (fst st, w1)
      | Returned line w1 \<Rightarrow>
          (let command = py_lower (py_strip line)
           in if command = ''q'' then Returned False (fst st, w1)
              else
                (case command_body E command (fst st, w1) of
                   Returned u st2 \<Rightarrow> Returned True st2
                 | Raised (RequestException e) st2 \<Rightarrow>
                     Returned True (fst st2, py_print (''Network/API error: '' @ e) (snd st2))
                 | Raised (RuntimeError e) st2 \<Rightarrow>
                     Returned False (fst st2, py_print e (snd st2))
                 | Raised ValueError st2 \<Rightarrow>
                     Returned True (fst st2, py_print ''Failed to parse API response.'' (snd st2))
                 | Raised err st2 \<Rightarrow> Raised err st2)))"

definition BANNER :: string where
  "BANNER = ''Hello! Commands:'' @ [CHR 0x0A]
     @ ''- list: show available currencies'' @ [CHR 0x0A]
     @ ''- rate: show exchange rate between two currencies'' @ [CHR 0x0A]
     @ ''- convert: convert an amount'' @ [CHR 0x0A]
     @ ''- q: quit'' @ [CHR 0x0A]"

text \<open>
  \<^verbatim>\<open>while True\<close>. The loop ends: a turn that goes on has read a line of the input,
  which is finite; at its end \<^verbatim>\<open>input\<close> raises \<^verbatim>\<open>EOFError\<close>.
\<close>

lemma state_of_Returned: "state_of (Returned v s) = s"
  by (simp add: state_of_def)

lemma py_input_Returned:
  "py_input prompt w = Returned line w1 \<Longrightarrow> length (stdin w1) < length (stdin w)"
  by (auto simp: py_input_def split: list.splits)

lemma py_input_stdin: "length (stdin (state_of (py_input prompt w))) \<le> length (stdin w)"
  by (simp add: py_input_def state_of_def split: list.splits)

lemma bind_stdin:
  assumes "length (stdin (state_of r)) \<le> n"
    and "\<And>v w. length (stdin w) \<le> n \<Longrightarrow> length (stdin (state_of (f v w))) \<le> n"
  shows "length (stdin (state_of (bind r f))) \<le> n"
  using assms by (cases r) (simp_all add: bind_def state_of_def)

lemma lift_stdin: "length (stdin w) \<le> n \<Longrightarrow> length (stdin (state_of (lift w r))) \<le> n"
  by (cases r) (simp_all add: lift_def state_of_def)

lemma api_get_json_stdin:
  "length (stdin w) \<le> n \<Longrightarrow> length (stdin (state_of (api_get_json E endpoint w))) \<le> n"
  by (simp add: api_get_json_def state_of_def lift_def Let_def split: sum.splits)

lemma get_currencies_stdin:
  "length (stdin w) \<le> n \<Longrightarrow> length (stdin (state_of (get_currencies E w))) \<le> n"
  unfolding get_currencies_def Let_def
  by (intro bind_stdin api_get_json_stdin lift_stdin) (simp_all add: state_of_def split: json.splits)

lemma print_currencies_stdin:
  "length (stdin w) \<le> n \<Longrightarrow> length (stdin (state_of (print_currencies E items w))) \<le> n"
proof (induction items arbitrary: w)
  case Nil
  then show ?case by (simp add: state_of_def)
next
  case (Cons item rest)
  show ?case
    unfolding print_currencies.simps
    by (intro bind_stdin lift_stdin Cons.prems Cons.IH) (simp_all add: py_print_def)
qed

lemma exchange_rate_stdin:
  "length (stdin w) \<le> n \<Longrightarrow> length (stdin (state_of (exchange_rate E cur1 cur2 w))) \<le> n"
  unfolding exchange_rate_def Let_def
  apply (intro bind_stdin api_get_json_stdin, assumption)
  apply (simp add: state_of_Returned py_print_def)
  apply (intro impI bind_stdin lift_stdin, assumption)
  apply (simp add: state_of_Returned py_print_def)
  apply (intro impI bind_stdin lift_stdin)
   apply (simp_all add: state_of_Returned py_print_def)
  done

lemma convert_stdin:
  "length (stdin w) \<le> n \<Longrightarrow> length (stdin (state_of (convert E cur1 cur2 amount w))) \<le> n"
  unfolding convert_def
  by (intro bind_stdin exchange_rate_stdin)
    (auto simp: state_of_def py_print_def split: option.splits sum.splits)

lemma with_cache_stdin:
  "length (stdin (state_of r)) \<le> n \<Longrightarrow> length (stdin (snd (state_of (with_cache c r)))) \<le> n"
  by (cases r) (simp_all add: with_cache_def state_of_def)

lemma command_body_stdin:
  "length (stdin (snd (state_of (command_body E command st)))) \<le> length (stdin (snd st))"
proof (cases st)
  case (Pair c w)
  have g: "length (stdin (state_of (get_currencies E w))) \<le> length (stdin w)"
    by (rule get_currencies_stdin) simp
  have i: "\<And>p w'. length (stdin w') \<le> length (stdin w) \<Longrightarrow>
      length (stdin (state_of (py_input p w'))) \<le> length (stdin w)"
    using py_input_stdin le_trans by blast
  show ?thesis
    unfolding Pair command_body_def
    apply (simp add: Let_def split: option.splits outcome.splits)
    apply (intro conjI impI allI with_cache_stdin print_currencies_stdin bind_stdin i
        convert_stdin exchange_rate_stdin)
    using g apply (auto simp: state_of_def py_print_def)
    done
qed

lemma turn_consumes:
  assumes "turn E st = Returned True st1"
  shows "length (stdin (snd st1)) < length (stdin (snd st))"
proof (cases "py_input ''Enter a command (q to quit): '' (snd st)")
  case (Raised err w1)
  with assms show ?thesis by (simp add: turn_def)
next
  case (Returned line w1)
  then have l: "length (stdin w1) < length (stdin (snd st))"
    by (rule py_input_Returned)
  from command_body_stdin [of E "py_lower (py_strip line)" "(fst st, w1)"]
  have b: "length (stdin (snd (state_of
      (command_body E (py_lower (py_strip line)) (fst st, w1))))) \<le> length (stdin w1)"
    by simp
  from assms Returned have "length (stdin (snd st1)) \<le> length (stdin w1)"
    using b
    by (auto simp: turn_def Let_def state_of_def py_print_def
        split: if_splits outcome.splits py_error.splits)
  with l show ?thesis by simp
qed

function main_loop :: "env \<Rightarrow> cache \<times> world \<Rightarrow> (unit, cache \<times> world) outcome" where
  "main_loop E st =
     (case turn E st of
        Raised err st1 \<Rightarrow> Raised err st1
      | Returned go_on st1 \<Rightarrow> if go_on then main_loop E st1 else Returned () st1)"
  by pat_completeness auto
termination
  by (relation "measure (\<lambda>(E, st). length (stdin (snd st)))") (auto dest: turn_consumes)

declare main_loop.simps [simp del]

definition main :: "env \<Rightarrow> world \<Rightarrow> (unit, cache \<times> world) outcome" where
  "main E w = main_loop E (None, py_print BANNER w)"


section \<open>Properties of Rock-Paper-Scissors\<close>

text \<open>
  C9. For all user and computer choices drawn from rock, paper, scissors, the function
  \<open>determine_winner\<close> returns the tie value 0 exactly when the two choices are equal, the
  user-wins value 1 exactly when the pair is (rock, scissors), (paper, rock) or
  (scissors, paper), and the computer-wins value -1 in every other case.
\<close>

theorem determine_winner_table:
  assumes "user \<in> set OPTIONS" and "computer \<in> set OPTIONS"
  shows "(determine_winner user computer = 0 \<longleftrightarrow> user = computer)
       \<and> (determine_winner user computer = 1 \<longleftrightarrow>
            (user, computer) \<in> {(''rock'', ''scissors''), (''paper'', ''rock''),
                                 (''scissors'', ''paper'')})
       \<and> (determine_winner user computer = -1 \<longleftrightarrow>
            user \<noteq> computer \<and>
            (user, computer) \<notin> {(''rock'', ''scissors''), (''paper'', ''rock''),
                                 (''scissors'', ''paper'')})"
  using assms by (auto simp: determine_winner_def wins_def OPTIONS_def)

theorem determine_winner_table_witness:
  "''paper'' \<in> set OPTIONS \<and> ''rock'' \<in> set OPTIONS
   \<and> determine_winner ''paper'' ''rock'' = 1
   \<and> determine_winner ''rock'' ''paper'' = -1
   \<and> determine_winner ''rock'' ''rock'' = 0"
proof -
  have p: "''paper'' \<in> set OPTIONS" and r: "''rock'' \<in> set OPTIONS"
    by (simp_all add: OPTIONS_def)
  show ?thesis
    using p r determine_winner_table [OF p r] determine_winner_table [OF r p]
      determine_winner_table [OF r r]
    by simp
qed

section \<open>Properties of the calculator\<close>

subsection \<open>Evaluation of the built-ins at the values in play\<close>

lemmas string_defs = py_strip_def py_isspace_def split_sign_def py_split_def is_digit_def
  digit_val_def py_lower_def py_lower_char_def

lemma py_float_0: "py_float ''0'' = Inr (Finite False 0 (- 1074))"
  by (simp add: py_float_def string_defs parse_decimal_def parse_exponent_def nat_of_digits_def
      fl_of_decimal_def fl_make_def fl_round_def)

lemma remove_zeros_0: "remove_zeros ''0'' = Inr ''0''"
  by (simp add: remove_zeros_def py_float_0 fl_repr_def endswith_def)

lemma parse_number_0: "parse_number ''0'' = Inr (PInt 0)"
  by (simp add: parse_number_def py_int_def string_defs)

lemma parse_number_5: "parse_number ''5'' = Inr (PInt 5)"
  by (simp add: parse_number_def py_int_def string_defs)

lemma py_str_0: "py_str (PInt 0) = ''0''"
  by (simp add: py_str_def py_str_int_def digit_char_def)

subsection \<open>The call of \<^verbatim>\<open>clear_temp\<close>\<close>

lemma clear_temp_raises: "clear_temp s = Raised AttributeError s"
  by (simp add: clear_temp_def getattr_self_def Calculator_attributes_def)

lemma add_digit_raises: "add_digit digit s = Raised AttributeError (remove_error s)"
  by (simp add: add_digit_def clear_temp_raises bind_def)

lemma add_point_raises: "add_point s = Raised AttributeError s"
  by (simp add: add_point_def clear_temp_raises bind_def)

lemma negate_raises: "negate s = Raised AttributeError s"
  by (simp add: negate_def clear_temp_raises bind_def)

lemma backspace_raises: "backspace s = Raised AttributeError (remove_error s)"
  by (simp add: backspace_def clear_temp_raises bind_def)

lemma remove_error_lineEdit:
  "lineEdit (remove_error s) = (if error_shown s then ''0'' else lineEdit s)"
  by (simp add: remove_error_def disable_buttons_def)

lemma remove_error_no_error: "\<not> error_shown s \<Longrightarrow> remove_error s = s"
  by (simp add: remove_error_def)

lemma remove_error_clears:
  "error_shown s \<Longrightarrow> remove_error s = s\<lparr>lineEdit := ''0'', buttons_disabled := False\<rparr>"
  by (simp add: remove_error_def disable_buttons_def)

text \<open>What a click of each button that edits the entry leaves behind.\<close>

lemma click_digit: "click s (Btn i) = remove_error s"
  by (simp add: click_def slot_def operation_buttons_def add_digit_raises state_of_def)

lemma click_backspace: "click s Btn_backspace = remove_error s"
  by (simp add: click_def slot_def operation_buttons_def backspace_raises state_of_def)

lemma click_point: "click s Btn_point = s"
  by (simp add: click_def slot_def operation_buttons_def add_point_raises state_of_def)

lemma click_neg: "click s Btn_neg = s"
  by (simp add: click_def slot_def operation_buttons_def negate_raises state_of_def)

lemma click_clear:
  "click s Btn_clear = (remove_error s)\<lparr>lineEdit := ''0'', label := [], is_result_shown := False\<rparr>"
  by (simp add: click_def slot_def operation_buttons_def clear_all_def state_of_def
      adjust_entry_font_size_def adjust_temp_font_size_def)

lemma click_disabled:
  "buttons_disabled s \<Longrightarrow> b \<in> set operation_buttons \<Longrightarrow> click s b = s"
  by (simp add: click_def)

text \<open>
  C1. The handlers \<open>add_digit\<close>, \<open>add_point\<close>, \<open>negate\<close> and \<open>backspace\<close> call
  \<^verbatim>\<open>self.clear_temp()\<close>, and no attribute of that name is defined. So in every state
  each of the four raises \<^verbatim>\<open>AttributeError\<close> at that call: \<open>add_point\<close> and
  \<open>negate\<close> with the state untouched, \<open>add_digit\<close> and \<open>backspace\<close> with only
  \<open>remove_error\<close> done, which leaves the entry as it was or, where an error message
  was on display, as \<^verbatim>\<open>0\<close>. No digit, point or sign reaches the entry and no
  character leaves it.
\<close>

theorem handlers_raise_AttributeError:
  "''clear_temp'' \<notin> set Calculator_attributes
   \<and> add_digit digit s = Raised AttributeError (remove_error s)
   \<and> add_point s = Raised AttributeError s
   \<and> negate s = Raised AttributeError s
   \<and> backspace s = Raised AttributeError (remove_error s)
   \<and> lineEdit (remove_error s) = (if error_shown s then ''0'' else lineEdit s)"
  by (simp add: add_digit_raises add_point_raises negate_raises backspace_raises
      remove_error_lineEdit Calculator_attributes_def)

subsection \<open>Runs from the initial state\<close>

lemma init_no_error: "\<not> error_shown init"
  by (simp add: init_def error_shown_def ERROR_ZERO_DIV_def ERROR_UNDEFINED_def)

lemma click_init_digit: "click init (Btn i) = init"
  by (simp add: click_digit remove_error_no_error init_no_error)

lemma math_operation_init:
  "math_operation sign init =
     Returned () \<lparr>lineEdit = ''0'', label = ''0 '' @ sign, is_result_shown = False,
                  buttons_disabled = False\<rparr>"
  by (simp add: math_operation_def init_def bind_def lift_def remove_zeros_0
      adjust_temp_font_size_def)

lemma calculate_0_plus_0:
  "calculate \<lparr>lineEdit = ''0'', label = ''0 +'', is_result_shown = False, buttons_disabled = False\<rparr>
   = Returned (Some ''0'') \<lparr>lineEdit = ''0'', label = ''0 + 0 ='', is_result_shown = True,
       buttons_disabled = False\<rparr>"
  by (simp add: calculate_def apply_operation_def get_mathsign_def get_temp_def get_entry_def
      parse_number_0 py_split_def py_isspace_def operations_def py_add_def py_str_0
      remove_zeros_0 str_temp_def str_mathsign_def adjust_temp_font_size_def
      adjust_entry_font_size_def)

lemma calculate_0_minus_0:
  "calculate \<lparr>lineEdit = ''0'', label = ''0 -'', is_result_shown = False, buttons_disabled = False\<rparr>
   = Returned (Some ''0'') \<lparr>lineEdit = ''0'', label = ''0 - 0 ='', is_result_shown = True,
       buttons_disabled = False\<rparr>"
  by (simp add: calculate_def apply_operation_def get_mathsign_def get_temp_def get_entry_def
      parse_number_0 py_split_def py_isspace_def operations_def py_sub_def py_str_0
      remove_zeros_0 str_temp_def str_mathsign_def adjust_temp_font_size_def
      adjust_entry_font_size_def)

lemma calculate_0_div_0:
  "calculate \<lparr>lineEdit = ''0'', label = ''0 /'', is_result_shown = False, buttons_disabled = False\<rparr>
   = Returned None \<lparr>lineEdit = ''Result is undefined'', label = ''0 /'', is_result_shown = False,
       buttons_disabled = True\<rparr>"
  by (simp add: calculate_def apply_operation_def get_mathsign_def get_temp_def get_entry_def
      parse_number_0 py_split_def py_isspace_def operations_def py_truediv_def eq_zero_def
      show_error_def disable_buttons_def ERROR_UNDEFINED_def)

lemma calculate_5_div_0:
  "calculate \<lparr>lineEdit = ''0'', label = ''5 /'', is_result_shown = False, buttons_disabled = False\<rparr>
   = Returned None \<lparr>lineEdit = ''Division by zero'', label = ''5 /'', is_result_shown = False,
       buttons_disabled = True\<rparr>"
  by (simp add: calculate_def apply_operation_def get_mathsign_def get_temp_def get_entry_def
      parse_number_0 parse_number_5 py_split_def py_isspace_def operations_def py_truediv_def
      eq_zero_def show_error_def disable_buttons_def ERROR_ZERO_DIV_def)

lemma math_operation_substitute:
  "math_operation ''-'' \<lparr>lineEdit = ''0'', label = ''0 +'', is_result_shown = False,
       buttons_disabled = False\<rparr>
   = Returned () \<lparr>lineEdit = ''0'', label = ''0 -'', is_result_shown = False,
       buttons_disabled = False\<rparr>"
  by (simp add: math_operation_def bind_def lift_def get_mathsign_def py_split_def py_isspace_def
      adjust_temp_font_size_def)

text \<open>
  C2. The scenario of the digits 1 and 2, the operator +, the digit 3 and the equals
  button, from the initial state. The first digit already raises \<^verbatim>\<open>AttributeError\<close>
  with the initial state untouched, and so do the others; the operator and the equals
  button then work on the entry \<^verbatim>\<open>0\<close>. The run ends with the entry \<^verbatim>\<open>0\<close> and the
  expression \<^verbatim>\<open>0 + 0 =\<close>, where the scenario expects \<^verbatim>\<open>15\<close> and \<^verbatim>\<open>12 + 3 =\<close>;
  only the flag of the shown result is as expected.
\<close>

theorem scenario_12_plus_3:
  "add_digit ''1'' init = Raised AttributeError init
   \<and> run init [Btn 1, Btn 2, Btn_add, Btn 3, Btn_calc]
       = \<lparr>lineEdit = ''0'', label = ''0 + 0 ='', is_result_shown = True,
          buttons_disabled = False\<rparr>"
proof -
  let ?p = "\<lparr>lineEdit = ''0'', label = ''0 +'', is_result_shown = False, buttons_disabled = False\<rparr>"
  have a: "add_digit ''1'' init = Raised AttributeError init"
    by (simp add: add_digit_raises remove_error_no_error init_no_error)
  have p: "click init Btn_add = ?p"
    by (simp add: click_def slot_def init_def [symmetric] math_operation_init state_of_def)
      (simp add: init_def)
  have e: "\<not> error_shown ?p"
    by (simp add: error_shown_def ERROR_ZERO_DIV_def ERROR_UNDEFINED_def)
  have d: "click ?p (Btn 3) = ?p"
    by (simp only: click_digit remove_error_no_error [OF e])
  have c: "click ?p Btn_calc = \<lparr>lineEdit = ''0'', label = ''0 + 0 ='', is_result_shown = True,
          buttons_disabled = False\<rparr>"
    by (simp add: click_def slot_def calculate_0_plus_0 state_of_def)
  show ?thesis
    by (simp add: a run_def click_init_digit p d c)
qed

subsection \<open>Division by zero\<close>

lemma truediv_by_zero:
  assumes "eq_zero right" and "to_float left = Inr x"
  shows "py_truediv left right = Inl ZeroDivisionError"
proof (cases right)
  case (PInt j)
  with assms show ?thesis
    by (cases left) (simp_all add: py_truediv_def eq_zero_def float_op_def to_float_def fl_of_int_def
        fl_round_def fl_div_def fl_is_zero_def)
next
  case (PFloat y)
  with assms show ?thesis
    by (cases left) (simp_all add: py_truediv_def eq_zero_def float_op_def to_float_def fl_div_def)
qed

lemma get_mathsign_label: "get_mathsign s = Inr (Some t) \<Longrightarrow> label s \<noteq> []"
  by (auto simp: get_mathsign_def split: if_splits)

lemma calculate_zero_division:
  assumes "get_mathsign s = Inr (Some ''/'')"
    and "get_temp s = Inr (Some left)"
    and "get_entry s = Inr right"
    and "eq_zero right"
    and "to_float left = Inr x"
  shows "calculate s = Returned None
           (s\<lparr>lineEdit := (if eq_zero left then ERROR_UNDEFINED else ERROR_ZERO_DIV),
              buttons_disabled := True\<rparr>)"
proof -
  have l: "label s \<noteq> []"
    using assms(1) by (rule get_mathsign_label)
  have a: "apply_operation s = Inl ZeroDivisionError"
    by (simp add: apply_operation_def assms(1-3) operations_def truediv_by_zero [OF assms(4,5)])
  show ?thesis
    by (simp add: calculate_def l a assms(2) show_error_def disable_buttons_def)
qed

lemma error_persists_and_clears:
  assumes "error_shown e" and "buttons_disabled e"
  shows "(\<forall>b \<in> set operation_buttons. click e b = e)
       \<and> click e Btn_point = e \<and> click e Btn_neg = e
       \<and> (\<forall>b \<in> insert Btn_clear (insert Btn_backspace (range Btn)).
            \<not> error_shown (click e b) \<and> \<not> buttons_disabled (click e b)
            \<and> lineEdit (click e b) = ''0'')"
proof -
  have r: "remove_error e = e\<lparr>lineEdit := ''0'', buttons_disabled := False\<rparr>"
    using assms(1) by (rule remove_error_clears)
  have n: "\<not> error_shown (remove_error e)" "\<not> buttons_disabled (remove_error e)"
    "lineEdit (remove_error e) = ''0''"
    by (simp_all add: r error_shown_def ERROR_ZERO_DIV_def ERROR_UNDEFINED_def)
  have c: "\<not> error_shown (click e Btn_clear)" "\<not> buttons_disabled (click e Btn_clear)"
    "lineEdit (click e Btn_clear) = ''0''"
    by (simp_all add: click_clear r error_shown_def ERROR_ZERO_DIV_def ERROR_UNDEFINED_def)
  show ?thesis
    using assms(2) n c by (auto simp: click_disabled click_point click_neg click_digit click_backspace)
qed

text \<open>
  C3. Let the label hold a pending division (its last word is \<^verbatim>\<open>/\<close>), let its first
  word parse to the number \<open>left\<close>, within the float range, and let the entry parse to a
  zero (the integer 0 or a float zero). Then \<open>calculate\<close> returns \<^verbatim>\<open>None\<close> with the
  entry replaced by \<^verbatim>\<open>Result is undefined\<close> if \<open>left\<close> equals 0 and by
  \<^verbatim>\<open>Division by zero\<close> otherwise, and with the operator and equals buttons disabled;
  nothing else changes. In the state reached an error is on display; a click of an
  operator or of the equals button is not delivered, and the point and sign buttons
  leave the state as it is, so the error stays; a click of a digit, of backspace or of
  clear removes the message (the entry is \<^verbatim>\<open>0\<close>) and enables the buttons again.
\<close>

theorem calculate_division_by_zero:
  assumes "get_mathsign s = Inr (Some ''/'')"
    and "get_temp s = Inr (Some left)"
    and "get_entry s = Inr right"
    and "eq_zero right"
    and "to_float left = Inr x"
  shows "calculate s = Returned None
           (s\<lparr>lineEdit := (if eq_zero left then ERROR_UNDEFINED else ERROR_ZERO_DIV),
              buttons_disabled := True\<rparr>)
       \<and> error_shown (state_of (calculate s))
       \<and> buttons_disabled (state_of (calculate s))
       \<and> (\<forall>b \<in> set operation_buttons. click (state_of (calculate s)) b = state_of (calculate s))
       \<and> click (state_of (calculate s)) Btn_point = state_of (calculate s)
       \<and> click (state_of (calculate s)) Btn_neg = state_of (calculate s)
       \<and> (\<forall>b \<in> insert Btn_clear (insert Btn_backspace (range Btn)).
            \<not> error_shown (click (state_of (calculate s)) b)
            \<and> \<not> buttons_disabled (click (state_of (calculate s)) b)
            \<and> lineEdit (click (state_of (calculate s)) b) = ''0'')"
proof -
  let ?e = "s\<lparr>lineEdit := (if eq_zero left then ERROR_UNDEFINED else ERROR_ZERO_DIV),
              buttons_disabled := True\<rparr>"
  have c: "calculate s = Returned None ?e"
    using assms by (rule calculate_zero_division)
  have st: "state_of (calculate s) = ?e"
    by (simp add: c state_of_def)
  have e: "error_shown ?e" and d: "buttons_disabled ?e"
    by (simp_all add: error_shown_def)
  from error_persists_and_clears [OF e d] c e d show ?thesis
    unfolding st by blast
qed

theorem calculate_division_by_zero_witness:
  "calculate \<lparr>lineEdit = ''0'', label = ''5 /'', is_result_shown = False, buttons_disabled = False\<rparr>
     = Returned None \<lparr>lineEdit = ''Division by zero'', label = ''5 /'', is_result_shown = False,
         buttons_disabled = True\<rparr>
   \<and> lineEdit (click \<lparr>lineEdit = ''Division by zero'', label = ''5 /'', is_result_shown = False,
         buttons_disabled = True\<rparr> (Btn 7)) = ''0''
   \<and> click \<lparr>lineEdit = ''Division by zero'', label = ''5 /'', is_result_shown = False,
         buttons_disabled = True\<rparr> Btn_add
       = \<lparr>lineEdit = ''Division by zero'', label = ''5 /'', is_result_shown = False,
         buttons_disabled = True\<rparr>"
proof -
  let ?s = "\<lparr>lineEdit = ''0'', label = ''5 /'', is_result_shown = False, buttons_disabled = False\<rparr>"
  let ?e = "\<lparr>lineEdit = ''Division by zero'', label = ''5 /'', is_result_shown = False,
         buttons_disabled = True\<rparr>"
  have 1: "get_mathsign ?s = Inr (Some ''/'')"
    by (simp add: get_mathsign_def py_split_def py_isspace_def)
  have 2: "get_temp ?s = Inr (Some (PInt 5))"
    by (simp add: get_temp_def py_split_def py_isspace_def parse_number_5)
  have 3: "get_entry ?s = Inr (PInt 0)"
    by (simp add: get_entry_def parse_number_0)
  have 4: "eq_zero (PInt 0)"
    by (simp add: eq_zero_def)
  have 5: "to_float (PInt 5) = Inr (Finite False 5629499534213120 (- 50))"
    by (simp add: to_float_def fl_of_int_def fl_round_def pow2_def Let_def)
  have st: "state_of (calculate ?s) = ?e"
    using calculate_division_by_zero [OF 1 2 3 4 5]
    by (simp add: state_of_def eq_zero_def ERROR_ZERO_DIV_def)
  have m: "Btn_add \<in> set operation_buttons"
    "Btn 7 \<in> insert Btn_clear (insert Btn_backspace (range Btn))"
    by (simp_all add: operation_buttons_def)
  from calculate_division_by_zero [OF 1 2 3 4 5] m show ?thesis
    unfolding st by (simp add: eq_zero_def ERROR_ZERO_DIV_def)
qed

subsection \<open>Digits after a result\<close>

text \<open>
  C4. A digit typed while a result is on display is to replace the result, and a digit
  typed onto the lone entry \<^verbatim>\<open>0\<close> is to replace the \<^verbatim>\<open>0\<close>; the statements of
  \<open>add_digit\<close> that do so stand after the call of \<^verbatim>\<open>clear_temp\<close>. With the result
  \<^verbatim>\<open>15\<close> on display, \<open>add_digit\<close> of \<^verbatim>\<open>7\<close> raises \<^verbatim>\<open>AttributeError\<close> and leaves
  both the entry \<^verbatim>\<open>15\<close> and the flag of the shown result as they were; on the initial
  entry \<^verbatim>\<open>0\<close>, \<open>add_digit\<close> of \<^verbatim>\<open>5\<close> raises and leaves \<^verbatim>\<open>0\<close>, not \<^verbatim>\<open>5\<close>.
\<close>

theorem add_digit_after_result:
  "add_digit ''7'' \<lparr>lineEdit = ''15'', label = ''12 + 3 ='', is_result_shown = True,
       buttons_disabled = False\<rparr>
     = Raised AttributeError \<lparr>lineEdit = ''15'', label = ''12 + 3 ='', is_result_shown = True,
         buttons_disabled = False\<rparr>
   \<and> add_digit ''5'' init = Raised AttributeError init
   \<and> lineEdit init = ''0''"
  by (simp add: add_digit_raises remove_error_def error_shown_def ERROR_ZERO_DIV_def
      ERROR_UNDEFINED_def init_def)

subsection \<open>An operator after an operator\<close>

text \<open>
  C5. The scenario of the digit 5, the operators + and -, the digit 3 and the equals
  button, from the initial state. The second operator does replace the first in the
  label and leaves its first word alone, but both digits raise \<^verbatim>\<open>AttributeError\<close>
  and enter nothing: the run computes 0 - 0 and ends with the entry \<^verbatim>\<open>0\<close> and the
  expression \<^verbatim>\<open>0 - 0 =\<close>, where the scenario expects the result 2.
\<close>

theorem scenario_5_plus_minus_3:
  "run init [Btn 5, Btn_add, Btn_sub, Btn 3, Btn_calc]
       = \<lparr>lineEdit = ''0'', label = ''0 - 0 ='', is_result_shown = True,
          buttons_disabled = False\<rparr>
   \<and> add_digit ''5'' init = Raised AttributeError init"
proof -
  let ?p = "\<lparr>lineEdit = ''0'', label = ''0 +'', is_result_shown = False, buttons_disabled = False\<rparr>"
  let ?q = "\<lparr>lineEdit = ''0'', label = ''0 -'', is_result_shown = False, buttons_disabled = False\<rparr>"
  have a: "add_digit ''5'' init = Raised AttributeError init"
    by (simp add: add_digit_raises remove_error_no_error init_no_error)
  have p: "click init Btn_add = ?p"
    by (simp add: click_def slot_def init_def [symmetric] math_operation_init state_of_def)
      (simp add: init_def)
  have q: "click ?p Btn_sub = ?q"
    by (simp add: click_def slot_def math_operation_substitute state_of_def)
  have e: "\<not> error_shown ?q"
    by (simp add: error_shown_def ERROR_ZERO_DIV_def ERROR_UNDEFINED_def)
  have d: "click ?q (Btn 3) = ?q"
    by (simp only: click_digit remove_error_no_error [OF e])
  have c: "click ?q Btn_calc = \<lparr>lineEdit = ''0'', label = ''0 - 0 ='', is_result_shown = True,
          buttons_disabled = False\<rparr>"
    by (simp add: click_def slot_def calculate_0_minus_0 state_of_def)
  show ?thesis
    by (simp add: a run_def click_init_digit p q d c)
qed

subsection \<open>The error state and the pending expression\<close>

text \<open>
  C6, as stated, fails: from the initial state the division button and the equals
  button lead to a state in which the error message \<^verbatim>\<open>Result is undefined\<close> is on
  display while the label still holds the pending expression \<^verbatim>\<open>0 /\<close>.
\<close>

theorem error_with_pending_expression:
  "run init [Btn_div, Btn_calc]
     = \<lparr>lineEdit = ''Result is undefined'', label = ''0 /'', is_result_shown = False,
        buttons_disabled = True\<rparr>
   \<and> error_shown (run init [Btn_div, Btn_calc])
   \<and> label (run init [Btn_div, Btn_calc]) \<noteq> []"
proof -
  let ?p = "\<lparr>lineEdit = ''0'', label = ''0 /'', is_result_shown = False, buttons_disabled = False\<rparr>"
  have p: "click init Btn_div = ?p"
    by (simp add: click_def slot_def init_def [symmetric] math_operation_init state_of_def)
      (simp add: init_def)
  have c: "click ?p Btn_calc = \<lparr>lineEdit = ''Result is undefined'', label = ''0 /'',
      is_result_shown = False, buttons_disabled = True\<rparr>"
    by (simp add: click_def slot_def calculate_0_div_0 state_of_def)
  show ?thesis
    by (simp add: run_def p c error_shown_def ERROR_UNDEFINED_def)
qed

lemma calculate_buttons:
  "buttons_disabled (state_of (calculate s)) \<Longrightarrow> \<not> buttons_disabled s \<Longrightarrow>
     label s \<noteq> [] \<and> (state_of (calculate s) = show_error ERROR_UNDEFINED s
        \<or> state_of (calculate s) = show_error ERROR_ZERO_DIV s)"
  by (auto simp: calculate_def state_of_def adjust_temp_font_size_def adjust_entry_font_size_def
      split: if_splits sum.splits py_error.splits)

text \<open>
  C6, amended. The error state and a non-empty pending expression hold together:
  whenever \<open>calculate\<close> enters the error state (it disables the buttons, which were
  enabled), an error message is on display and the label keeps the pending expression
  unchanged. The next click of a digit or of backspace removes the error and still
  keeps the label; only the clear button empties it.
\<close>

theorem error_keeps_pending_expression:
  assumes "\<not> buttons_disabled s" and "buttons_disabled (state_of (calculate s))"
  shows "error_shown (state_of (calculate s))
       \<and> label (state_of (calculate s)) = label s \<and> label s \<noteq> []
       \<and> (\<forall>b \<in> insert Btn_backspace (range Btn).
            \<not> error_shown (click (state_of (calculate s)) b)
            \<and> \<not> buttons_disabled (click (state_of (calculate s)) b)
            \<and> label (click (state_of (calculate s)) b) = label s)
       \<and> \<not> error_shown (click (state_of (calculate s)) Btn_clear)
       \<and> \<not> buttons_disabled (click (state_of (calculate s)) Btn_clear)
       \<and> label (click (state_of (calculate s)) Btn_clear) = []"
proof -
  let ?e = "state_of (calculate s)"
  from calculate_buttons [OF assms(2,1)]
  have l: "label s \<noteq> []"
    and e: "?e = show_error ERROR_UNDEFINED s \<or> ?e = show_error ERROR_ZERO_DIV s"
    by simp_all
  from e have es: "error_shown ?e" and el: "label ?e = label s"
    by (auto simp: show_error_def disable_buttons_def error_shown_def)
  have r: "remove_error ?e = ?e\<lparr>lineEdit := ''0'', buttons_disabled := False\<rparr>"
    using es by (rule remove_error_clears)
  have n: "\<not> error_shown (remove_error ?e)" "\<not> buttons_disabled (remove_error ?e)"
    "label (remove_error ?e) = label s"
    by (simp_all add: r el error_shown_def ERROR_ZERO_DIV_def ERROR_UNDEFINED_def)
  have c: "\<not> error_shown (click ?e Btn_clear)" "\<not> buttons_disabled (click ?e Btn_clear)"
    "label (click ?e Btn_clear) = []"
    by (simp_all add: click_clear r error_shown_def ERROR_ZERO_DIV_def ERROR_UNDEFINED_def)
  show ?thesis
    using es el l n c by (auto simp: click_digit click_backspace)
qed

theorem error_keeps_pending_expression_witness:
  "\<not> buttons_disabled \<lparr>lineEdit = ''0'', label = ''5 /'', is_result_shown = False,
        buttons_disabled = False\<rparr>
   \<and> state_of (calculate \<lparr>lineEdit = ''0'', label = ''5 /'', is_result_shown = False,
        buttons_disabled = False\<rparr>)
       = \<lparr>lineEdit = ''Division by zero'', label = ''5 /'', is_result_shown = False,
           buttons_disabled = True\<rparr>
   \<and> label (click \<lparr>lineEdit = ''Division by zero'', label = ''5 /'', is_result_shown = False,
           buttons_disabled = True\<rparr> (Btn 7)) = ''5 /''
   \<and> label (click \<lparr>lineEdit = ''Division by zero'', label = ''5 /'', is_result_shown = False,
           buttons_disabled = True\<rparr> Btn_clear) = []"
proof -
  let ?s = "\<lparr>lineEdit = ''0'', label = ''5 /'', is_result_shown = False, buttons_disabled = False\<rparr>"
  let ?e = "\<lparr>lineEdit = ''Division by zero'', label = ''5 /'', is_result_shown = False,
         buttons_disabled = True\<rparr>"
  have st: "state_of (calculate ?s) = ?e"
    by (simp add: calculate_5_div_0 state_of_def)
  have 1: "\<not> buttons_disabled ?s" by simp
  have 2: "buttons_disabled (state_of (calculate ?s))" by (simp add: st)
  have m: "Btn 7 \<in> insert Btn_backspace (range Btn)" by simp
  from error_keeps_pending_expression [OF 1 2] m show ?thesis
    unfolding st by simp
qed

subsection \<open>The sign button\<close>



subsection \<open>An operator on a pending expression\<close>
















section \<open>Properties of the currency converter\<close>

lemma api_get_json_no_key:
  "no_key E \<Longrightarrow> api_get_json E endpoint w = Raised (RuntimeError KEY_MESSAGE) w"
  by (simp add: api_get_json_def)

lemma get_currencies_no_key:
  "no_key E \<Longrightarrow> get_currencies E w = Raised (RuntimeError KEY_MESSAGE) w"
  by (simp add: get_currencies_def api_get_json_no_key bind_def)

lemma exchange_rate_no_key:
  "no_key E \<Longrightarrow> exchange_rate E cur1 cur2 w = Raised (RuntimeError KEY_MESSAGE) w"
  by (simp add: exchange_rate_def api_get_json_no_key bind_def)

lemma convert_no_key:
  "no_key E \<Longrightarrow> convert E cur1 cur2 amount w = Raised (RuntimeError KEY_MESSAGE) w"
  by (simp add: convert_def exchange_rate_no_key bind_def)

text \<open>One turn of the loop on each kind of command, without a key.\<close>

lemma turn_unrecognized:
  assumes "py_lower (py_strip l) \<notin> set [''q'', ''list'', ''convert'', ''rate'']"
  shows "turn E (c, \<lparr>stdin = l # ls, trace = tr\<rparr>)
       = Returned True (c, \<lparr>stdin = ls, trace = tr @ [Prompted ''Enter a command (q to quit): '',
            Printed ''Unrecognized command.'']\<rparr>)"
  using assms by (simp add: turn_def py_input_def command_body_def py_print_def)

lemma turn_list_no_key:
  assumes "no_key E" and "py_lower (py_strip l) = ''list''"
  shows "turn E (None, \<lparr>stdin = l # ls, trace = tr\<rparr>)
       = Returned False (None, \<lparr>stdin = ls, trace = tr @ [Prompted ''Enter a command (q to quit): '',
            Printed KEY_MESSAGE]\<rparr>)"
  using assms by (simp add: turn_def py_input_def command_body_def py_print_def get_currencies_no_key)

lemma turn_convert_no_key:
  assumes "no_key E" and "py_lower (py_strip l) = ''convert''"
  shows "turn E (c, \<lparr>stdin = l # a1 # a2 # a3 # ls, trace = tr\<rparr>)
       = Returned False (c, \<lparr>stdin = ls, trace = tr @ [Prompted ''Enter a command (q to quit): '',
            Prompted ''Enter a currency you have: '',
            Prompted (''Enter an amount in '' @ py_upper (py_strip a1) @ '': ''),
            Prompted ''Enter a currency you want to get: '',
            Printed KEY_MESSAGE]\<rparr>)"
  using assms
  by (simp add: turn_def py_input_def command_body_def py_print_def convert_no_key bind_def
      with_cache_def)

lemma turn_rate_no_key:
  assumes "no_key E" and "py_lower (py_strip l) = ''rate''"
  shows "turn E (c, \<lparr>stdin = l # a1 # a2 # ls, trace = tr\<rparr>)
       = Returned False (c, \<lparr>stdin = ls, trace = tr @ [Prompted ''Enter a command (q to quit): '',
            Prompted ''Enter a currency you have: '',
            Prompted ''Enter a currency to convert to: '',
            Printed KEY_MESSAGE]\<rparr>)"
  using assms
  by (simp add: turn_def py_input_def command_body_def py_print_def exchange_rate_no_key bind_def
      with_cache_def)

lemma turn_api_command_no_key:
  assumes "no_key E"
    and "(py_lower (py_strip l), length answers) \<in> set [(''list'', 0), (''convert'', 3), (''rate'', 2)]"
  shows "\<exists>ps. turn E (None, \<lparr>stdin = l # answers @ rest, trace = tr\<rparr>)
            = Returned False (None, \<lparr>stdin = rest, trace = tr @ ps @ [Printed KEY_MESSAGE]\<rparr>)
          \<and> filter is_request ps = []"
proof -
  consider (list) "py_lower (py_strip l) = ''list''" "answers = []"
    | (convert) a1 a2 a3 where "py_lower (py_strip l) = ''convert''" "answers = [a1, a2, a3]"
    | (rate) a1 a2 where "py_lower (py_strip l) = ''rate''" "answers = [a1, a2]"
    using assms(2) by (auto simp: length_Suc_conv numeral_3_eq_3 numeral_2_eq_2)
  then show ?thesis
  proof cases
    case list
    show ?thesis
      by (rule exI [of _ "[Prompted ''Enter a command (q to quit): '']"])
        (simp add: list turn_list_no_key [OF assms(1)] is_request_def)
  next
    case convert
    show ?thesis
      by (rule exI [of _ "[Prompted ''Enter a command (q to quit): '',
            Prompted ''Enter a currency you have: '',
            Prompted (''Enter an amount in '' @ py_upper (py_strip a1) @ '': ''),
            Prompted ''Enter a currency you want to get: '']"])
        (simp add: convert turn_convert_no_key [OF assms(1)] is_request_def)
  next
    case rate
    show ?thesis
      by (rule exI [of _ "[Prompted ''Enter a command (q to quit): '',
            Prompted ''Enter a currency you have: '',
            Prompted ''Enter a currency to convert to: '']"])
        (simp add: rate turn_rate_no_key [OF assms(1)] is_request_def)
  qed
qed

lemma main_loop_no_key:
  assumes "no_key E"
    and "\<forall>l \<in> set before. py_lower (py_strip l) \<notin> set [''q'', ''list'', ''convert'', ''rate'']"
    and "(py_lower (py_strip c), length answers) \<in> set [(''list'', 0), (''convert'', 3), (''rate'', 2)]"
  shows "\<exists>ps. main_loop E (None, \<lparr>stdin = before @ c # answers @ rest, trace = tr\<rparr>)
            = Returned () (None, \<lparr>stdin = rest, trace = tr @ ps @ [Printed KEY_MESSAGE]\<rparr>)
          \<and> filter is_request ps = []"
  using assms(2)
proof (induction before arbitrary: tr)
  case Nil
  from turn_api_command_no_key [OF assms(1,3), of rest tr] obtain ps where
    "turn E (None, \<lparr>stdin = c # answers @ rest, trace = tr\<rparr>)
       = Returned False (None, \<lparr>stdin = rest, trace = tr @ ps @ [Printed KEY_MESSAGE]\<rparr>)"
    and "filter is_request ps = []"
    by blast
  then show ?case
    by (subst main_loop.simps) auto
next
  case (Cons l before)
  let ?u = "[Prompted ''Enter a command (q to quit): '', Printed ''Unrecognized command.'']"
  from Cons.prems have l: "py_lower (py_strip l) \<notin> set [''q'', ''list'', ''convert'', ''rate'']"
    and b: "\<forall>l \<in> set before. py_lower (py_strip l) \<notin> set [''q'', ''list'', ''convert'', ''rate'']"
    by simp_all
  from Cons.IH [OF b, of "tr @ ?u"] obtain ps where
    m: "main_loop E (None, \<lparr>stdin = before @ c # answers @ rest, trace = tr @ ?u\<rparr>)
       = Returned () (None, \<lparr>stdin = rest, trace = (tr @ ?u) @ ps @ [Printed KEY_MESSAGE]\<rparr>)"
    and f: "filter is_request ps = []"
    by blast
  have "main_loop E (None, \<lparr>stdin = (l # before) @ c # answers @ rest, trace = tr\<rparr>)
      = Returned () (None, \<lparr>stdin = rest, trace = tr @ (?u @ ps) @ [Printed KEY_MESSAGE]\<rparr>)"
    by (subst main_loop.simps) (simp add: turn_unrecognized [OF l] m)
  moreover have "filter is_request (?u @ ps) = []"
    by (simp add: f is_request_def)
  ultimately show ?case by blast
qed

text \<open>
  C8. Let the key be absent or empty. Let the input begin with any number of lines that
  are no command, followed by a line that reads as one of the commands that use the
  API (\<^verbatim>\<open>list\<close>, \<^verbatim>\<open>convert\<close>, \<^verbatim>\<open>rate\<close>, after \<^verbatim>\<open>strip().lower()\<close>) and by
  the lines that answer the prompts of that command (none, three, two). Then \<open>main\<close>
  returns: the loop ends at that command, with the rest of the input unread. The last
  thing the program does is to print the message of the \<^verbatim>\<open>RuntimeError\<close>, and
  nothing it did before is an HTTP request.
\<close>

theorem missing_key_is_fatal:
  assumes "API_KEY E = None \<or> API_KEY E = Some []"
    and "\<forall>l \<in> set before. py_lower (py_strip l) \<notin> set [''q'', ''list'', ''convert'', ''rate'']"
    and "(py_lower (py_strip c), length answers) \<in> set [(''list'', 0), (''convert'', 3), (''rate'', 2)]"
  shows "\<exists>ps. main E \<lparr>stdin = before @ c # answers @ rest, trace = []\<rparr>
            = Returned () (None, \<lparr>stdin = rest, trace = ps @ [Printed KEY_MESSAGE]\<rparr>)
          \<and> filter is_request ps = []"
proof -
  have k: "no_key E"
    using assms(1) by (auto simp: no_key_def)
  from main_loop_no_key [OF k assms(2,3), of rest "[Printed BANNER]"] obtain ps where
    m: "main_loop E (None, \<lparr>stdin = before @ c # answers @ rest, trace = [Printed BANNER]\<rparr>)
       = Returned () (None, \<lparr>stdin = rest, trace = [Printed BANNER] @ ps @ [Printed KEY_MESSAGE]\<rparr>)"
    and f: "filter is_request ps = []"
    by blast
  have "main E \<lparr>stdin = before @ c # answers @ rest, trace = []\<rparr>
      = Returned () (None, \<lparr>stdin = rest, trace = (Printed BANNER # ps) @ [Printed KEY_MESSAGE]\<rparr>)"
    using m by (simp add: main_def py_print_def)
  moreover have "filter is_request (Printed BANNER # ps) = []"
    by (simp add: f is_request_def)
  ultimately show ?thesis by blast
qed

lemma lower_strip_help: "py_lower (py_strip ''help'') = ''help''"
  by (simp add: py_lower_def py_lower_char_def py_strip_def py_isspace_def)

lemma lower_strip_rate: "py_lower (py_strip '' Rate'') = ''rate''"
  by (simp add: py_lower_def py_lower_char_def py_strip_def py_isspace_def)

theorem missing_key_is_fatal_witness:
  "\<exists>ps. main \<lparr>API_KEY = None, response = (\<lambda>n url. Inl ValueError), str_container = (\<lambda>d. [])\<rparr>
            \<lparr>stdin = [''help'', '' Rate'', ''usd'', ''eur'', ''list'', ''q''], trace = []\<rparr>
          = Returned () (None, \<lparr>stdin = [''list'', ''q''], trace = ps @ [Printed KEY_MESSAGE]\<rparr>)
        \<and> filter is_request ps = []"
proof -
  let ?E = "\<lparr>API_KEY = None, response = (\<lambda>n url. Inl ValueError), str_container = (\<lambda>d. [])\<rparr>"
  have 1: "API_KEY ?E = None \<or> API_KEY ?E = Some []" by simp
  have 2: "\<forall>l \<in> set [''help'']. py_lower (py_strip l) \<notin> set [''q'', ''list'', ''convert'', ''rate'']"
    by (simp add: lower_strip_help)
  have 3: "(py_lower (py_strip '' Rate''), length [''usd'', ''eur''])
      \<in> set [(''list'', 0), (''convert'', 3), (''rate'', 2)]"
    by (simp add: lower_strip_rate)
  from missing_key_is_fatal [OF 1 2 3, of "[''list'', ''q'']"] show ?thesis
    by simp
qed

end
